theory Spec2Isabelle
  imports Main "HOL-Library.Sublist"
begin

section \<open>The CloudFront key-pair custom resource (terraform/cloudfront-keygen.py)\<close>

text \<open>
  The repository is one AWS Lambda function, \<^verbatim>\<open>handler(event, context)\<close>, which serves the
  Create / Update / Delete protocol of a CloudFormation custom resource. It talks to four
  collaborators: the \<^verbatim>\<open>openssl\<close> binary (through \<^verbatim>\<open>subprocess.run\<close> and a temporary
  directory), the SSM parameter store (\<^verbatim>\<open>put_parameter\<close>, \<^verbatim>\<open>get_parameter\<close>), the HTTP pool
  that delivers the callback, and standard output.

  The embedding threads a \<open>world\<close> through every call. The world holds the files, the stored
  parameters and the trace of every effect in program order. What a collaborator answers is
  fixed by an \<open>env\<close>. A Python exception is a value of type \<open>exn\<close>; a function that may raise
  returns \<open>exn + 'a\<close> beside the new world.
\<close>

subsection \<open>Exceptions\<close>

text \<open>
  The code tells three kinds of exception apart: a \<^verbatim>\<open>KeyError\<close> from a missing dictionary key,
  the store's \<^verbatim>\<open>ParameterNotFound\<close> (the only class the inner \<^verbatim>\<open>except\<close> names), and every
  other subclass of \<^verbatim>\<open>Exception\<close>, kept with its message.
\<close>

datatype exn =
    KeyError string
  | ParameterNotFound string
  | Error string

text \<open>\<^verbatim>\<open>str(e)\<close>. For a \<^verbatim>\<open>KeyError\<close> it is the \<^verbatim>\<open>repr\<close> of the key: the key between single quotes.\<close>

fun str :: "exn \<Rightarrow> string" where
  "str (KeyError k) = [CHR 0x27] @ k @ [CHR 0x27]"
| "str (ParameterNotFound m) = m"
| "str (Error m) = m"

subsection \<open>Data\<close>

text \<open>
  The event is a JSON object whose values are strings, but for \<^verbatim>\<open>ResourceProperties\<close>, an
  object of strings. A key that is absent is \<open>None\<close>; reading it with \<^verbatim>\<open>event[k]\<close> raises
  \<^verbatim>\<open>KeyError\<close>, reading it with \<^verbatim>\<open>event.get(k, d)\<close> gives \<open>d\<close>.
\<close>

record event =
  RequestType :: "string option"
  ResourceProperties :: "(string \<times> string) list option"
  StackId :: "string option"
  RequestId :: "string option"
  LogicalResourceId :: "string option"
  ResponseURL :: "string option"
  PhysicalResourceId :: "string option"

record lambda_context =
  log_stream_name :: string

text \<open>The value handed to \<^verbatim>\<open>json.dumps\<close>: strings and objects, keys in the order written.\<close>

datatype json = JStr string | JObj "(string \<times> json) list"

text \<open>A parameter as the store keeps it.\<close>

record parameter =
  Value :: string
  Type :: string
  Description :: string

text \<open>
  Every effect the program has on its surroundings, in the order it happens.
  \<open>Print_Event e\<close> is the line \<^verbatim>\<open>print(f"Event: {json.dumps(event)}")\<close>; \<open>Run\<close> is a call of
  \<^verbatim>\<open>subprocess.run\<close>; \<open>Put_Parameter\<close> and \<open>Get_Parameter\<close> are the calls to the store with
  their arguments; \<open>Http_Put url body\<close> is \<^verbatim>\<open>http.request('PUT', url, headers, body)\<close>, where
  \<open>body\<close> stands for its serialisation (the two headers are fixed by it).
\<close>

datatype effect =
    Print string
  | Print_Event event
  | Run "string list"
  | Put_Parameter string string string string bool
  | Get_Parameter string
  | Http_Put string json

record world =
  files :: "string \<rightharpoonup> string"
  params :: "string \<rightharpoonup> parameter"
  trace :: "effect list"

text \<open>
  The collaborators. \<open>mkdtemp\<close> is the directory \<^verbatim>\<open>tempfile.TemporaryDirectory()\<close> creates, or
  the exception it raises. \<open>openssl args fs\<close> is the file system after the command has run on
  \<open>fs\<close>, or the exception \<^verbatim>\<open>subprocess.run(..., check=True)\<close> raises. \<open>put_fault\<close> and
  \<open>get_fault\<close> say for which parameter names the store refuses a call and with what.
  \<open>http_request url body\<close> is the status of the response, or the transport's exception.
  \<open>decode_error bytes\<close> is the message of the \<^verbatim>\<open>UnicodeDecodeError\<close> the codec raises on
  file contents that are not UTF-8 (it names the first offending byte and its position).
\<close>

record env =
  mkdtemp :: "exn + string"
  openssl :: "string list \<Rightarrow> (string \<rightharpoonup> string) \<Rightarrow> exn + (string \<rightharpoonup> string)"
  put_fault :: "string \<Rightarrow> exn option"
  get_fault :: "string \<Rightarrow> exn option"
  http_request :: "string \<Rightarrow> json \<Rightarrow> exn + nat"
  decode_error :: "string \<Rightarrow> string"

subsection \<open>Library functions the handler calls\<close>

definition emit :: "effect \<Rightarrow> world \<Rightarrow> world" where
  "emit x w = w\<lparr>trace := trace w @ [x]\<rparr>"

text \<open>\<^verbatim>\<open>str(n)\<close> for a status code.\<close>

fun str_nat :: "nat \<Rightarrow> string" where
  "str_nat n =
     (if n < 10 then [char_of (48 + n)]
      else str_nat (n div 10) @ [char_of (48 + n mod 10)])"

text \<open>\<^verbatim>\<open>os.path.join(a, b)\<close> on POSIX, for two components.\<close>

definition path_join :: "string \<Rightarrow> string \<Rightarrow> string" where
  "path_join a b =
     (if b \<noteq> [] \<and> hd b = CHR ''/'' then b
      else if a = [] \<or> last a = CHR ''/'' then a @ b
      else a @ ''/'' @ b)"

text \<open>
  \<^verbatim>\<open>base64.b64encode(s.encode()).decode('utf-8')\<close>: a \<open>string\<close> is already the list of the
  bytes of the text. Three bytes give four letters of the alphabet; a last group of one
  or two bytes is padded with \<^verbatim>\<open>=\<close>.
\<close>

definition b64_alphabet :: string where
  "b64_alphabet = ''ABCDEFGHIJKLMNOPQRSTUVWXYZabcdefghijklmnopqrstuvwxyz0123456789+/''"

definition b64_char :: "nat \<Rightarrow> char" where
  "b64_char i = b64_alphabet ! (i mod 64)"

fun b64_groups :: "nat list \<Rightarrow> string" where
  "b64_groups [] = []"
| "b64_groups [a] =
     [b64_char (a div 4), b64_char ((a mod 4) * 16), CHR ''='', CHR ''='']"
| "b64_groups [a, b] =
     [b64_char (a div 4), b64_char ((a mod 4) * 16 + b div 16),
      b64_char ((b mod 16) * 4), CHR ''='']"
| "b64_groups (a # b # c # rest) =
     [b64_char (a div 4), b64_char ((a mod 4) * 16 + b div 16),
      b64_char ((b mod 16) * 4 + c div 64), b64_char (c mod 64)] @ b64_groups rest"

definition b64encode :: "string \<Rightarrow> string" where
  "b64encode s = b64_groups (map of_char s)"

subsection \<open>The parameter store\<close>

text \<open>
  \<^verbatim>\<open>ssm_client.put_parameter(Name, Value, Type, Description, Overwrite)\<close>. The call is
  recorded; the store may refuse it; without \<^verbatim>\<open>Overwrite\<close> an existing name is an error;
  otherwise the parameter is stored under the name.
\<close>

definition put_parameter ::
  "env \<Rightarrow> string \<Rightarrow> string \<Rightarrow> string \<Rightarrow> string \<Rightarrow> bool \<Rightarrow> world \<Rightarrow> (exn + unit) \<times> world" where
  "put_parameter en name val ty descr overwrite w =
     (let w = emit (Put_Parameter name val ty descr overwrite) w in
      case put_fault en name of
        Some e \<Rightarrow> (Inl e, w)
      | None \<Rightarrow>
          if params w name \<noteq> None \<and> \<not> overwrite
          then (Inl (Error ''ParameterAlreadyExists''), w)
          else (Inr (),
                w\<lparr>params := (params w)(name \<mapsto> \<lparr>Value = val, Type = ty, Description = descr\<rparr>)\<rparr>))"

text \<open>
  \<^verbatim>\<open>ssm_client.get_parameter(Name)['Parameter']['Value']\<close>. A name the store does not hold
  raises \<^verbatim>\<open>ParameterNotFound\<close>.
\<close>

definition get_parameter :: "env \<Rightarrow> string \<Rightarrow> world \<Rightarrow> (exn + string) \<times> world" where
  "get_parameter en name w =
     (let w = emit (Get_Parameter name) w in
      case get_fault en name of
        Some e \<Rightarrow> (Inl e, w)
      | None \<Rightarrow>
          (case params w name of
             None \<Rightarrow> (Inl (ParameterNotFound name), w)
           | Some p \<Rightarrow> (Inr (Value p), w)))"

subsection \<open>Key generation: the \<^verbatim>\<open>with tempfile.TemporaryDirectory()\<close> block\<close>

text \<open>\<^verbatim>\<open>subprocess.run(args, check=True, capture_output=True, text=True)\<close>.\<close>

definition subprocess_run :: "env \<Rightarrow> string list \<Rightarrow> world \<Rightarrow> (exn + unit) \<times> world" where
  "subprocess_run en args w =
     (let w = emit (Run args) w in
      case openssl en args (files w) of
        Inl e \<Rightarrow> (Inl e, w)
      | Inr fs \<Rightarrow> (Inr (), w\<lparr>files := fs\<rparr>))"

text \<open>
  \<^verbatim>\<open>with open(name, 'r') as f: f.read()\<close>. The file is opened in text mode. Its bytes are
  decoded as UTF-8, the encoding of the Lambda runtime, and a \<open>string\<close> of the embedding is
  the UTF-8 form of a text, so decoding keeps well-formed contents as they are and raises
  \<^verbatim>\<open>UnicodeDecodeError\<close> on all others. Then the universal-newlines translation turns
  every CR LF and every other CR into LF.
\<close>

text \<open>A continuation byte of UTF-8.\<close>

definition utf8_cont :: "nat \<Rightarrow> bool" where
  "utf8_cont b \<longleftrightarrow> 128 \<le> b \<and> b \<le> 191"

text \<open>
  Well-formed UTF-8, as the decoder of Python accepts it: no overlong form, no surrogate,
  nothing above U+10FFFF.
\<close>

fun utf8_valid :: "nat list \<Rightarrow> bool" where
  "utf8_valid [] = True"
| "utf8_valid (a # bs) =
     (if a < 128 then utf8_valid bs
      else if 194 \<le> a \<and> a \<le> 223 then
        (case bs of
           b # rest \<Rightarrow> utf8_cont b \<and> utf8_valid rest
         | _ \<Rightarrow> False)
      else if 224 \<le> a \<and> a \<le> 239 then
        (case bs of
           b # c # rest \<Rightarrow>
             utf8_cont b \<and> (a = 224 \<longrightarrow> 160 \<le> b) \<and> (a = 237 \<longrightarrow> b \<le> 159) \<and>
             utf8_cont c \<and> utf8_valid rest
         | _ \<Rightarrow> False)
      else if 240 \<le> a \<and> a \<le> 244 then
        (case bs of
           b # c # d # rest \<Rightarrow>
             utf8_cont b \<and> (a = 240 \<longrightarrow> 144 \<le> b) \<and> (a = 244 \<longrightarrow> b \<le> 143) \<and>
             utf8_cont c \<and> utf8_cont d \<and> utf8_valid rest
         | _ \<Rightarrow> False)
      else False)"

fun universal_newlines :: "string \<Rightarrow> string" where
  "universal_newlines [] = []"
| "universal_newlines [c] = (if c = CHR 0x0D then [CHR 0x0A] else [c])"
| "universal_newlines (c # d # cs) =
     (if c = CHR 0x0D \<and> d = CHR 0x0A then CHR 0x0A # universal_newlines cs
      else if c = CHR 0x0D then CHR 0x0A # universal_newlines (d # cs)
      else c # universal_newlines (d # cs))"

definition read_file :: "env \<Rightarrow> string \<Rightarrow> world \<Rightarrow> (exn + string) \<times> world" where
  "read_file en name w =
     (case files w name of
        None \<Rightarrow>
          (Inl (Error (''[Errno 2] No such file or directory: '' @
                       [CHR 0x27] @ name @ [CHR 0x27])), w)
      | Some bytes \<Rightarrow>
          if utf8_valid (map of_char bytes) then (Inr (universal_newlines bytes), w)
          else (Inl (Error (decode_error en bytes)), w))"

text \<open>Leaving the \<^verbatim>\<open>with\<close> block removes the directory and all that is in it.\<close>

definition cleanup :: "string \<Rightarrow> (string \<rightharpoonup> string) \<Rightarrow> (string \<rightharpoonup> string)" where
  "cleanup tmpdir fs = (\<lambda>p. if prefix (tmpdir @ ''/'') p then None else fs p)"

text \<open>
  Lines 47 to 66 of the source. The block gives the two PEM texts, or the first exception
  raised in it; the directory is removed on every way out.
\<close>

definition generate_keypair :: "env \<Rightarrow> world \<Rightarrow> (exn + string \<times> string) \<times> world" where
  "generate_keypair en w =
     (case mkdtemp en of
        Inl e \<Rightarrow> (Inl e, w)
      | Inr tmpdir \<Rightarrow>
          let private_key_file = path_join tmpdir ''private.pem'';
              public_key_file = path_join tmpdir ''public.pem'';
              w = emit (Print ''Generating RSA 2048-bit key pair...'') w;
              (r, w) =
                (case subprocess_run en
                        [''openssl'', ''genrsa'', ''-out'', private_key_file, ''2048''] w of
                   (Inl e, w) \<Rightarrow> (Inl e, w)
                 | (Inr _, w) \<Rightarrow>
                (case subprocess_run en
                        [''openssl'', ''rsa'', ''-in'', private_key_file, ''-pubout'',
                         ''-out'', public_key_file] w of
                   (Inl e, w) \<Rightarrow> (Inl e, w)
                 | (Inr _, w) \<Rightarrow>
                (case read_file en private_key_file w of
                   (Inl e, w) \<Rightarrow> (Inl e, w)
                 | (Inr private_key_pem, w) \<Rightarrow>
                (case read_file en public_key_file w of
                   (Inl e, w) \<Rightarrow> (Inl e, w)
                 | (Inr public_key_pem, w) \<Rightarrow>
                     (Inr (private_key_pem, public_key_pem), w)))))
          in (r, w\<lparr>files := cleanup tmpdir (files w)\<rparr>))"

subsection \<open>\<^verbatim>\<open>send_response\<close>\<close>

text \<open>
  The body is built first, outside the \<^verbatim>\<open>try\<close>: a missing \<^verbatim>\<open>StackId\<close>, \<^verbatim>\<open>RequestId\<close> or
  \<^verbatim>\<open>LogicalResourceId\<close> raises \<^verbatim>\<open>KeyError\<close> out of the function. The request is inside the
  \<^verbatim>\<open>try\<close>: a missing \<^verbatim>\<open>ResponseURL\<close> and every failure of the transport are printed and
  swallowed.
\<close>

definition send_response ::
  "env \<Rightarrow> event \<Rightarrow> lambda_context \<Rightarrow> string \<Rightarrow> json \<Rightarrow> string \<Rightarrow> world \<Rightarrow> (exn + unit) \<times> world" where
  "send_response en event ctx status response_data physical_resource_id w =
     (case StackId event of
        None \<Rightarrow> (Inl (KeyError ''StackId''), w)
      | Some stack_id \<Rightarrow>
     (case RequestId event of
        None \<Rightarrow> (Inl (KeyError ''RequestId''), w)
      | Some request_id \<Rightarrow>
     (case LogicalResourceId event of
        None \<Rightarrow> (Inl (KeyError ''LogicalResourceId''), w)
      | Some logical_resource_id \<Rightarrow>
          let response_body = JObj
                [(''Status'', JStr status),
                 (''Reason'', JStr (''See CloudWatch Log Stream: '' @ log_stream_name ctx)),
                 (''PhysicalResourceId'', JStr physical_resource_id),
                 (''StackId'', JStr stack_id),
                 (''RequestId'', JStr request_id),
                 (''LogicalResourceId'', JStr logical_resource_id),
                 (''Data'', response_data)]
          in (case ResponseURL event of
                None \<Rightarrow>
                  (Inr (), emit (Print (''send_response failed: '' @ str (KeyError ''ResponseURL''))) w)
              | Some url \<Rightarrow>
                  let w = emit (Http_Put url response_body) w in
                  (case http_request en url response_body of
                     Inl e \<Rightarrow> (Inr (), emit (Print (''send_response failed: '' @ str e)) w)
                   | Inr code \<Rightarrow>
                       (Inr (), emit (Print (''CloudFormation response status: '' @ str_nat code)) w))))))"

subsection \<open>\<^verbatim>\<open>handler\<close>\<close>

text \<open>
  The three branches of the \<^verbatim>\<open>if\<close> are given names; \<open>handler\<close> below puts them together
  as the source does.

  Lines 46 to 96, the Create branch: generate the keys, store the private key encoded and
  the public key as it is, then report success under the identifier computed here.
\<close>

definition create_branch ::
  "env \<Rightarrow> event \<Rightarrow> lambda_context \<Rightarrow> string \<Rightarrow> string \<Rightarrow> string \<Rightarrow> string \<Rightarrow> world
     \<Rightarrow> (exn + unit) \<times> world" where
  "create_branch en event ctx environment service private_key_path public_key_path w =
     (case generate_keypair en w of
        (Inl e, w) \<Rightarrow> (Inl e, w)
      | (Inr (private_key_pem, public_key_pem), w) \<Rightarrow>
          let private_key_b64 = b64encode private_key_pem in
     (case put_parameter en private_key_path private_key_b64 ''SecureString''
             ''CloudFront private key for signing URLs (base64 encoded)'' True w of
        (Inl e, w) \<Rightarrow> (Inl e, w)
      | (Inr _, w) \<Rightarrow>
          let w = emit (Print (''Stored private key in SSM: '' @ private_key_path)) w in
     (case put_parameter en public_key_path public_key_pem ''String''
             ''CloudFront public key for signing URLs'' True w of
        (Inl e, w) \<Rightarrow> (Inl e, w)
      | (Inr _, w) \<Rightarrow>
          let w = emit (Print (''Stored public key in SSM: '' @ public_key_path)) w;
              response_data = JObj
                [(''PublicKey'', JStr public_key_pem),
                 (''PublicKeySSMPath'', JStr public_key_path),
                 (''PrivateKeySSMPath'', JStr private_key_path)];
              physical_resource_id = ''cf-keys-'' @ environment @ ''-'' @ service
          in send_response en event ctx ''SUCCESS'' response_data physical_resource_id w)))"

text \<open>
  Lines 101 to 110, the body of the inner \<^verbatim>\<open>try\<close> of the Update branch: read the public
  key and report it under the identifier the event carries.
\<close>

definition update_branch ::
  "env \<Rightarrow> event \<Rightarrow> lambda_context \<Rightarrow> string \<Rightarrow> string \<Rightarrow> world \<Rightarrow> (exn + unit) \<times> world" where
  "update_branch en event ctx private_key_path public_key_path w =
     (case get_parameter en public_key_path w of
        (Inl e, w) \<Rightarrow> (Inl e, w)
      | (Inr public_key_pem, w) \<Rightarrow>
          let response_data = JObj
                [(''PublicKey'', JStr public_key_pem),
                 (''PublicKeySSMPath'', JStr public_key_path),
                 (''PrivateKeySSMPath'', JStr private_key_path)]
          in (case PhysicalResourceId event of
                None \<Rightarrow> (Inl (KeyError ''PhysicalResourceId''), w)
              | Some physical_resource_id \<Rightarrow>
                  send_response en event ctx ''SUCCESS'' response_data physical_resource_id w))"

text \<open>Lines 118 to 123, the Delete branch: nothing is removed.\<close>

definition delete_branch ::
  "env \<Rightarrow> event \<Rightarrow> lambda_context \<Rightarrow> string \<Rightarrow> string \<Rightarrow> string \<Rightarrow> string \<Rightarrow> world
     \<Rightarrow> (exn + unit) \<times> world" where
  "delete_branch en event ctx environment service private_key_path public_key_path w =
     (let w = emit (Print (''Delete requested. Keys retained in SSM: '' @
                           private_key_path @ '', '' @ public_key_path)) w;
          response_data = JObj [(''Message'', JStr ''Keys retained in SSM'')];
          physical_resource_id =
            (case PhysicalResourceId event of
               Some p \<Rightarrow> p
             | None \<Rightarrow> ''cf-keys-'' @ environment @ ''-'' @ service)
      in send_response en event ctx ''SUCCESS'' response_data physical_resource_id w)"

text \<open>
  The function itself. The first four reads stand before the \<^verbatim>\<open>try\<close>: their \<^verbatim>\<open>KeyError\<close>
  leaves the function. The \<^verbatim>\<open>if\<close> chain is the body of the \<^verbatim>\<open>try\<close>; the last \<^verbatim>\<open>case\<close> is
  \<^verbatim>\<open>except Exception as e\<close>. In the Update branch the inner \<^verbatim>\<open>except\<close> takes only
  \<^verbatim>\<open>ParameterNotFound\<close>; there the event's \<^verbatim>\<open>RequestType\<close> is overwritten and the function
  calls itself, inside the outer \<^verbatim>\<open>try\<close>. The overwritten field is read by nothing that
  runs after that call returns, so the outer \<^verbatim>\<open>except\<close> may use the event as it was.
\<close>

function handler :: "env \<Rightarrow> event \<Rightarrow> lambda_context \<Rightarrow> world \<Rightarrow> (exn + unit) \<times> world" where
  "handler en event ctx w =
     (let w = emit (Print_Event event) w in
      case RequestType event of
        None \<Rightarrow> (Inl (KeyError ''RequestType''), w)
      | Some request_type \<Rightarrow>
     (case ResourceProperties event of
        None \<Rightarrow> (Inl (KeyError ''ResourceProperties''), w)
      | Some resource_properties \<Rightarrow>
     (case map_of resource_properties ''Environment'' of
        None \<Rightarrow> (Inl (KeyError ''Environment''), w)
      | Some environment \<Rightarrow>
     (case map_of resource_properties ''Service'' of
        None \<Rightarrow> (Inl (KeyError ''Service''), w)
      | Some service \<Rightarrow>
          let private_key_path = ''/'' @ environment @ ''/'' @ service @ ''/cloudfront/private-key'';
              public_key_path = ''/'' @ environment @ ''/'' @ service @ ''/cloudfront/public-key''
          in
          (case
             (if request_type = ''Create'' then
                create_branch en event ctx environment service private_key_path public_key_path w
              else if request_type = ''Update'' then
                (case update_branch en event ctx private_key_path public_key_path w of
                   (Inl (ParameterNotFound m), w) \<Rightarrow>
                     handler en (event\<lparr>RequestType := Some ''Create''\<rparr>) ctx
                       (emit (Print ''Keys not found, creating new keys...'') w)
                 | (r, w) \<Rightarrow> (r, w))
              else if request_type = ''Delete'' then
                delete_branch en event ctx environment service private_key_path public_key_path w
              else (Inr (), w))
           of
             (Inr u, w) \<Rightarrow> (Inr u, w)
           | (Inl e, w) \<Rightarrow>
               let w = emit (Print (''Error: '' @ str e)) w in
               send_response en event ctx ''FAILED'' (JObj [(''Error'', JStr (str e))])
                 (case PhysicalResourceId event of
                    Some p \<Rightarrow> p
                  | None \<Rightarrow> ''failed-resource'') w)))))"
  by pat_completeness auto

text \<open>
  The only call the function makes to itself is from an Update event, on an event whose
  \<^verbatim>\<open>RequestType\<close> is Create: the number of Update events in hand goes from one to none.
\<close>

termination handler
  by (relation "measure (\<lambda>(en, event, ctx, w). if RequestType event = Some ''Update'' then 1 else 0)")
     simp_all

declare handler.simps [simp del]

subsection \<open>Reading events, traces and callbacks\<close>

text \<open>
  \<open>request event rt environment service\<close>: the event carries the three fields the function
  reads before its \<^verbatim>\<open>try\<close>. \<open>addressed\<close>: it carries the four fields \<open>send_response\<close> reads.
\<close>

definition request :: "event \<Rightarrow> string \<Rightarrow> string \<Rightarrow> string \<Rightarrow> bool" where
  "request event request_type environment service \<longleftrightarrow>
     RequestType event = Some request_type \<and>
     (case ResourceProperties event of
        None \<Rightarrow> False
      | Some resource_properties \<Rightarrow>
          map_of resource_properties ''Environment'' = Some environment \<and>
          map_of resource_properties ''Service'' = Some service)"

definition addressed :: "event \<Rightarrow> string \<Rightarrow> string \<Rightarrow> string \<Rightarrow> string \<Rightarrow> bool" where
  "addressed event stack_id request_id logical_resource_id url \<longleftrightarrow>
     StackId event = Some stack_id \<and> RequestId event = Some request_id \<and>
     LogicalResourceId event = Some logical_resource_id \<and> ResponseURL event = Some url"

abbreviation private_path :: "string \<Rightarrow> string \<Rightarrow> string" where
  "private_path environment service \<equiv>
     ''/'' @ environment @ ''/'' @ service @ ''/cloudfront/private-key''"

abbreviation public_path :: "string \<Rightarrow> string \<Rightarrow> string" where
  "public_path environment service \<equiv>
     ''/'' @ environment @ ''/'' @ service @ ''/cloudfront/public-key''"

abbreviation cf_keys :: "string \<Rightarrow> string \<Rightarrow> string" where
  "cf_keys environment service \<equiv> ''cf-keys-'' @ environment @ ''-'' @ service"

abbreviation private_descr :: string where
  "private_descr \<equiv> ''CloudFront private key for signing URLs (base64 encoded)''"

abbreviation public_descr :: string where
  "public_descr \<equiv> ''CloudFront public key for signing URLs''"

text \<open>The bodies of the callbacks of a trace, the calls that write to the store, and the
  effects that are not lines of the log.\<close>

fun callbacks :: "effect list \<Rightarrow> json list" where
  "callbacks [] = []"
| "callbacks (Http_Put url body # t) = body # callbacks t"
| "callbacks (x # t) = callbacks t"

fun store_writes :: "effect list \<Rightarrow> effect list" where
  "store_writes [] = []"
| "store_writes (Put_Parameter n v ty d ov # t) = Put_Parameter n v ty d ov # store_writes t"
| "store_writes (x # t) = store_writes t"

fun is_print :: "effect \<Rightarrow> bool" where
  "is_print (Print s) = True"
| "is_print (Print_Event e) = True"
| "is_print x = False"

definition actions :: "effect list \<Rightarrow> effect list" where
  "actions t = filter (\<lambda>x. \<not> is_print x) t"

text \<open>A member of a JSON object.\<close>

fun member :: "string \<Rightarrow> json \<Rightarrow> json option" where
  "member k (JObj kvs) = map_of kvs k"
| "member k (JStr s) = None"

text \<open>The body \<open>send_response\<close> builds.\<close>

definition cfn_body ::
  "lambda_context \<Rightarrow> string \<Rightarrow> string \<Rightarrow> string \<Rightarrow> string \<Rightarrow> string \<Rightarrow> json \<Rightarrow> json" where
  "cfn_body ctx status physical_resource_id stack_id request_id logical_resource_id response_data =
     JObj [(''Status'', JStr status),
           (''Reason'', JStr (''See CloudWatch Log Stream: '' @ log_stream_name ctx)),
           (''PhysicalResourceId'', JStr physical_resource_id),
           (''StackId'', JStr stack_id),
           (''RequestId'', JStr request_id),
           (''LogicalResourceId'', JStr logical_resource_id),
           (''Data'', response_data)]"

text \<open>The line \<open>send_response\<close> prints after the request.\<close>

definition delivery_line :: "env \<Rightarrow> string \<Rightarrow> json \<Rightarrow> string" where
  "delivery_line en url body =
     (case http_request en url body of
        Inl e \<Rightarrow> ''send_response failed: '' @ str e
      | Inr code \<Rightarrow> ''CloudFormation response status: '' @ str_nat code)"

text \<open>The data of a successful Create or Update, the body of a \<^verbatim>\<open>FAILED\<close> callback,
  and the world after a callback has been handed to the transport.\<close>

abbreviation keys_data :: "string \<Rightarrow> string \<Rightarrow> string \<Rightarrow> json" where
  "keys_data public_key_pem environment service \<equiv>
     JObj [(''PublicKey'', JStr public_key_pem),
           (''PublicKeySSMPath'', JStr (public_path environment service)),
           (''PrivateKeySSMPath'', JStr (private_path environment service))]"

abbreviation failed_body ::
  "lambda_context \<Rightarrow> event \<Rightarrow> string \<Rightarrow> string \<Rightarrow> string \<Rightarrow> exn \<Rightarrow> json" where
  "failed_body ctx event stack_id request_id logical_id e \<equiv>
     cfn_body ctx ''FAILED''
       (case PhysicalResourceId event of Some p \<Rightarrow> p | None \<Rightarrow> ''failed-resource'')
       stack_id request_id logical_id (JObj [(''Error'', JStr (str e))])"

definition deliver :: "env \<Rightarrow> string \<Rightarrow> json \<Rightarrow> world \<Rightarrow> world" where
  "deliver en url body w =
     w\<lparr>trace := trace w @ [Http_Put url body, Print (delivery_line en url body)]\<rparr>"

text \<open>
  The body of the outer \<^verbatim>\<open>try\<close> (lines 45 to 123) as \<open>handler\<close> runs it, under a name, so
  that theorems can speak of an exception raised inside it (\<open>handler_try\<close> below shows
  that this is what \<open>handler\<close> runs).
\<close>

definition try_block ::
  "env \<Rightarrow> event \<Rightarrow> lambda_context \<Rightarrow> string \<Rightarrow> string \<Rightarrow> string \<Rightarrow> world \<Rightarrow> (exn + unit) \<times> world" where
  "try_block en event ctx request_type environment service w =
     (if request_type = ''Create'' then
        create_branch en event ctx environment service
          (private_path environment service) (public_path environment service) w
      else if request_type = ''Update'' then
        (case update_branch en event ctx
                (private_path environment service) (public_path environment service) w of
           (Inl (ParameterNotFound m), w) \<Rightarrow>
             handler en (event\<lparr>RequestType := Some ''Create''\<rparr>) ctx
               (emit (Print ''Keys not found, creating new keys...'') w)
         | (r, w) \<Rightarrow> (r, w))
      else if request_type = ''Delete'' then
        delete_branch en event ctx environment service
          (private_path environment service) (public_path environment service) w
      else (Inr (), w))"


subsection \<open>What base64-encoded means\<close>

text \<open>
  The reader of the private-key parameter decodes it. \<open>b64decode\<close> is the decoder of
  RFC 4648, written from the standard and not from \<open>b64encode\<close>: every four letters give
  three bytes through their positions in the alphabet, and a last group that ends in one or
  two \<^verbatim>\<open>=\<close> gives two bytes or one. A text the standard does not allow gives \<open>None\<close>.
\<close>

fun index_of :: "'a \<Rightarrow> 'a list \<Rightarrow> nat option" where
  "index_of x [] = None"
| "index_of x (y # ys) = (if x = y then Some 0 else map_option Suc (index_of x ys))"

definition b64_index :: "char \<Rightarrow> nat option" where
  "b64_index c = index_of c b64_alphabet"

fun b64_ungroups :: "string \<Rightarrow> nat list option" where
  "b64_ungroups [] = Some []"
| "b64_ungroups (p # q # r # s # rest) =
     (if rest = [] \<and> r = CHR ''='' \<and> s = CHR ''='' then
        (case (b64_index p, b64_index q) of
           (Some i, Some j) \<Rightarrow> Some [i * 4 + j div 16]
         | _ \<Rightarrow> None)
      else if rest = [] \<and> s = CHR ''='' then
        (case (b64_index p, b64_index q, b64_index r) of
           (Some i, Some j, Some k) \<Rightarrow> Some [i * 4 + j div 16, (j mod 16) * 16 + k div 4]
         | _ \<Rightarrow> None)
      else
        (case (b64_index p, b64_index q, b64_index r, b64_index s, b64_ungroups rest) of
           (Some i, Some j, Some k, Some l, Some bytes) \<Rightarrow>
             Some ((i * 4 + j div 16) # ((j mod 16) * 16 + k div 4) #
                   ((k mod 4) * 64 + l) # bytes)
         | _ \<Rightarrow> None))"
| "b64_ungroups _ = None"

definition b64decode :: "string \<Rightarrow> string option" where
  "b64decode s = map_option (map char_of) (b64_ungroups s)"
subsection \<open>A concrete surrounding, for running the function\<close>

text \<open>
  An \<^verbatim>\<open>openssl\<close> that writes a fixed text to the file named after \<^verbatim>\<open>-out\<close> (the private
  key with a line that ends in CR LF), a store
  and a transport that never fail, and an event for the stack \<^verbatim>\<open>prod\<close>/\<^verbatim>\<open>edge\<close>.
\<close>

definition ex_openssl :: "string list \<Rightarrow> (string \<rightharpoonup> string) \<Rightarrow> exn + (string \<rightharpoonup> string)" where
  "ex_openssl args fs =
     (if args ! 1 = ''genrsa'' then Inr (fs(args ! 3 \<mapsto> ''PRIV'' @ [CHR 0x0D, CHR 0x0A]))
      else Inr (fs(args ! 6 \<mapsto> ''PUB'')))"

definition ex_env :: env where
  "ex_env = \<lparr>mkdtemp = Inr ''/tmp/tmpk'', openssl = ex_openssl,
             put_fault = (\<lambda>name. None), get_fault = (\<lambda>name. None),
             http_request = (\<lambda>url body. Inr 200),
             decode_error = (\<lambda>bytes. ''invalid start byte'')\<rparr>"

definition ex_event :: "string \<Rightarrow> string \<Rightarrow> string option \<Rightarrow> event" where
  "ex_event request_type service physical_resource_id =
     \<lparr>RequestType = Some request_type,
      ResourceProperties = Some [(''Environment'', ''prod''), (''Service'', service)],
      StackId = Some ''stack-1'', RequestId = Some ''req-1'',
      LogicalResourceId = Some ''Keys'', ResponseURL = Some ''https://cfn/cb'',
      PhysicalResourceId = physical_resource_id\<rparr>"

definition ex_ctx :: lambda_context where
  "ex_ctx = \<lparr>log_stream_name = ''log-1''\<rparr>"

definition ex_world :: world where
  "ex_world = \<lparr>files = Map.empty, params = Map.empty, trace = []\<rparr>"

text \<open>The same world after the public key has been stored.\<close>

definition ex_stored :: world where
  "ex_stored = ex_world\<lparr>params := [''/prod/edge/cloudfront/public-key'' \<mapsto>
      \<lparr>Value = ''PUB'', Type = ''String'', Description = public_descr\<rparr>]\<rparr>"

text \<open>A store that accepts the private key and refuses the public key.\<close>

definition ex_denied :: env where
  "ex_denied = ex_env\<lparr>put_fault :=
     (\<lambda>name. if name = ''/prod/edge/cloudfront/public-key''
             then Some (Error ''AccessDeniedException'') else None)\<rparr>"

section \<open>Auxiliary facts\<close>

subsection \<open>Base64: the decoder undoes the encoder\<close>

lemma index_of_nth: "distinct xs \<Longrightarrow> i < length xs \<Longrightarrow> index_of (xs ! i) xs = Some i"
proof (induction xs arbitrary: i)
  case Nil
  then show ?case by simp
next
  case (Cons y ys)
  then show ?case by (cases i) auto
qed

lemma b64_alphabet_distinct: "distinct b64_alphabet"
  by (simp add: b64_alphabet_def)

lemma b64_alphabet_length: "length b64_alphabet = 64"
  by (simp add: b64_alphabet_def)

lemma b64_index_char: "n < 64 \<Longrightarrow> b64_index (b64_char n) = Some n"
  by (simp add: b64_index_def b64_char_def index_of_nth b64_alphabet_distinct b64_alphabet_length)

lemma b64_char_not_pad: "b64_char n \<noteq> CHR ''=''"
proof -
  have "b64_char n \<in> set b64_alphabet"
    by (simp add: b64_char_def b64_alphabet_length)
  moreover have "CHR ''='' \<notin> set b64_alphabet"
    by (simp add: b64_alphabet_def)
  ultimately show ?thesis by metis
qed

lemma b64_ungroups_groups:
  "\<forall>b \<in> set bs. b < 256 \<Longrightarrow> b64_ungroups (b64_groups bs) = Some bs"
proof (induction bs rule: b64_groups.induct)
  case 1
  then show ?case by simp
next
  case (2 a)
  then have a: "a < 256" by simp
  have i: "a div 4 < 64" and j: "a mod 4 * 16 < 64" using a by simp_all
  show ?case
    using a by (simp add: b64_index_char [OF i] b64_index_char [OF j]; arith)
next
  case (3 a b)
  then have a: "a < 256" and b: "b < 256" by simp_all
  have i: "a div 4 < 64" and j: "a mod 4 * 16 + b div 16 < 64" and k: "b mod 16 * 4 < 64"
    using a b by simp_all
  show ?case
    using a b
    by (simp add: b64_index_char [OF i] b64_index_char [OF j] b64_index_char [OF k]
          b64_char_not_pad; arith)
next
  case (4 a b c rest)
  then have a: "a < 256" and b: "b < 256" and c: "c < 256"
    and r: "b64_ungroups (b64_groups rest) = Some rest" by simp_all
  have i: "a div 4 < 64" and j: "a mod 4 * 16 + b div 16 < 64"
    and k: "b mod 16 * 4 + c div 64 < 64" and l: "c mod 64 < 64"
    using a b c by simp_all
  show ?case
    using a b c
    by (simp add: b64_index_char [OF i] b64_index_char [OF j] b64_index_char [OF k]
          b64_index_char [OF l] b64_char_not_pad r; arith)
qed

lemma b64decode_b64encode: "b64decode (b64encode s) = Some s"
proof -
  have "\<forall>b \<in> set (map of_char s :: nat list). b < 256"
    by auto
  then show ?thesis
    by (simp add: b64decode_def b64encode_def b64_ungroups_groups comp_def)
qed

subsection \<open>The handler, branch by branch\<close>

lemma callbacks_append: "callbacks (xs @ ys) = callbacks xs @ callbacks ys"
  by (induction xs rule: callbacks.induct) simp_all

lemma store_writes_append: "store_writes (xs @ ys) = store_writes xs @ store_writes ys"
  by (induction xs rule: store_writes.induct) simp_all

lemma actions_append: "actions (xs @ ys) = actions xs @ actions ys"
  by (simp add: actions_def)

lemma send_response_addressed:
  assumes "addressed event sid rid lid url"
  shows "send_response en event ctx status response_data pid w =
     (Inr (), w\<lparr>trace := trace w @
        [Http_Put url (cfn_body ctx status pid sid rid lid response_data),
         Print (delivery_line en url (cfn_body ctx status pid sid rid lid response_data))]\<rparr>)"
  using assms
  by (simp add: addressed_def send_response_def cfn_body_def delivery_line_def emit_def Let_def
        split: sum.split)

lemma requestD:
  assumes "request event rt environment service"
  obtains props where "RequestType event = Some rt" "ResourceProperties event = Some props"
    "map_of props ''Environment'' = Some environment" "map_of props ''Service'' = Some service"
  using assms by (auto simp: request_def split: option.splits)

lemma handler_try:
  assumes "request event rt environment service"
  shows "handler en event ctx w =
     (case try_block en event ctx rt environment service (emit (Print_Event event) w) of
        (Inr u, w') \<Rightarrow> (Inr u, w')
      | (Inl e, w') \<Rightarrow>
          send_response en event ctx ''FAILED'' (JObj [(''Error'', JStr (str e))])
            (case PhysicalResourceId event of Some p \<Rightarrow> p | None \<Rightarrow> ''failed-resource'')
            (emit (Print (''Error: '' @ str e)) w'))"
proof -
  from assms obtain props where f: "RequestType event = Some rt"
    "ResourceProperties event = Some props"
    "map_of props ''Environment'' = Some environment" "map_of props ''Service'' = Some service"
    by (rule requestD)
  show ?thesis
    apply (subst handler.simps)
    unfolding try_block_def Let_def f option.case
    apply (rule refl)
    done
qed

lemma handler_malformed:
  "RequestType event = None \<Longrightarrow>
     handler en event ctx w = (Inl (KeyError ''RequestType''), emit (Print_Event event) w)"
  by (subst handler.simps) (simp add: Let_def)


lemma generate_keypair_ok:
  assumes "mkdtemp en = Inr tmpdir"
    and "openssl en [''openssl'', ''genrsa'', ''-out'', path_join tmpdir ''private.pem'', ''2048'']
           (files w) = Inr fs1"
    and "openssl en [''openssl'', ''rsa'', ''-in'', path_join tmpdir ''private.pem'', ''-pubout'',
           ''-out'', path_join tmpdir ''public.pem''] fs1 = Inr fs2"
    and "fs2 (path_join tmpdir ''private.pem'') = Some private_bytes"
    and "fs2 (path_join tmpdir ''public.pem'') = Some public_bytes"
    and "utf8_valid (map of_char private_bytes)"
    and "utf8_valid (map of_char public_bytes)"
  shows "generate_keypair en w =
     (Inr (universal_newlines private_bytes, universal_newlines public_bytes),
      w\<lparr>files := cleanup tmpdir fs2,
        trace := trace w @
          [Print ''Generating RSA 2048-bit key pair...'',
           Run [''openssl'', ''genrsa'', ''-out'', path_join tmpdir ''private.pem'', ''2048''],
           Run [''openssl'', ''rsa'', ''-in'', path_join tmpdir ''private.pem'', ''-pubout'',
                ''-out'', path_join tmpdir ''public.pem'']]\<rparr>)"
  using assms
  by (simp add: generate_keypair_def subprocess_run_def read_file_def emit_def Let_def)

lemma generate_keypair_frame:
  assumes "generate_keypair en w = (r, w1)"
  shows "params w1 = params w \<and>
         (\<exists>ks. trace w1 = trace w @ ks \<and> callbacks ks = [] \<and> store_writes ks = [])"
  using assms
  by (auto simp: generate_keypair_def subprocess_run_def read_file_def emit_def Let_def
           split: sum.splits option.splits prod.splits if_splits)


lemma create_branch_keygen_fail:
  assumes "generate_keypair en w = (Inl e, w1)"
  shows "create_branch en event ctx environment service pp pubp w = (Inl e, w1)"
  using assms by (simp add: create_branch_def)

lemma create_branch_private_fail:
  assumes "generate_keypair en w = (Inr (private_key_pem, public_key_pem), w1)"
    and "put_fault en pp = Some e"
  shows "create_branch en event ctx environment service pp pubp w =
     (Inl e, w1\<lparr>trace := trace w1 @
        [Put_Parameter pp (b64encode private_key_pem) ''SecureString'' private_descr True]\<rparr>)"
  using assms by (simp add: create_branch_def put_parameter_def emit_def Let_def)

lemma create_branch_public_fail:
  assumes "generate_keypair en w = (Inr (private_key_pem, public_key_pem), w1)"
    and "put_fault en pp = None" and "put_fault en pubp = Some e"
  shows "create_branch en event ctx environment service pp pubp w =
     (Inl e, w1\<lparr>params := (params w1)(pp \<mapsto>
           \<lparr>Value = b64encode private_key_pem, Type = ''SecureString'', Description = private_descr\<rparr>),
        trace := trace w1 @
        [Put_Parameter pp (b64encode private_key_pem) ''SecureString'' private_descr True,
         Print (''Stored private key in SSM: '' @ pp),
         Put_Parameter pubp public_key_pem ''String'' public_descr True]\<rparr>)"
  using assms by (simp add: create_branch_def put_parameter_def emit_def Let_def)

lemma create_branch_ok:
  assumes "generate_keypair en w = (Inr (private_key_pem, public_key_pem), w1)"
    and "put_fault en pp = None" and "put_fault en pubp = None"
    and "addressed event sid rid lid url"
  shows "create_branch en event ctx environment service pp pubp w =
     (Inr (), w1\<lparr>params := (params w1)
          (pp \<mapsto> \<lparr>Value = b64encode private_key_pem, Type = ''SecureString'',
                  Description = private_descr\<rparr>,
           pubp \<mapsto> \<lparr>Value = public_key_pem, Type = ''String'', Description = public_descr\<rparr>),
        trace := trace w1 @
        [Put_Parameter pp (b64encode private_key_pem) ''SecureString'' private_descr True,
         Print (''Stored private key in SSM: '' @ pp),
         Put_Parameter pubp public_key_pem ''String'' public_descr True,
         Print (''Stored public key in SSM: '' @ pubp),
         Http_Put url (cfn_body ctx ''SUCCESS'' (cf_keys environment service) sid rid lid
           (JObj [(''PublicKey'', JStr public_key_pem), (''PublicKeySSMPath'', JStr pubp),
                  (''PrivateKeySSMPath'', JStr pp)])),
         Print (delivery_line en url (cfn_body ctx ''SUCCESS'' (cf_keys environment service) sid rid lid
           (JObj [(''PublicKey'', JStr public_key_pem), (''PublicKeySSMPath'', JStr pubp),
                  (''PrivateKeySSMPath'', JStr pp)])))]\<rparr>)"
  using assms
  by (simp add: create_branch_def put_parameter_def emit_def Let_def
        send_response_addressed [OF assms(4)])

lemma update_branch_found:
  assumes "get_fault en pubp = None" and "params w pubp = Some p"
    and "PhysicalResourceId event = Some pid" and "addressed event sid rid lid url"
  shows "update_branch en event ctx pp pubp w =
     (Inr (), w\<lparr>trace := trace w @
        [Get_Parameter pubp,
         Http_Put url (cfn_body ctx ''SUCCESS'' pid sid rid lid
           (JObj [(''PublicKey'', JStr (Value p)), (''PublicKeySSMPath'', JStr pubp),
                  (''PrivateKeySSMPath'', JStr pp)])),
         Print (delivery_line en url (cfn_body ctx ''SUCCESS'' pid sid rid lid
           (JObj [(''PublicKey'', JStr (Value p)), (''PublicKeySSMPath'', JStr pubp),
                  (''PrivateKeySSMPath'', JStr pp)])))]\<rparr>)"
  using assms
  by (simp add: update_branch_def get_parameter_def emit_def Let_def
        send_response_addressed [OF assms(4)])

lemma update_branch_no_id:
  assumes "get_parameter en pubp w = (Inr v, w1)" and "PhysicalResourceId event = None"
  shows "update_branch en event ctx pp pubp w = (Inl (KeyError ''PhysicalResourceId''), w1)"
  using assms by (simp add: update_branch_def Let_def)

lemma update_branch_read_fail:
  assumes "get_parameter en pubp w = (Inl e, w1)"
  shows "update_branch en event ctx pp pubp w = (Inl e, w1)"
  using assms by (simp add: update_branch_def)

lemma get_parameter_trace:
  "snd (get_parameter en name w) = w\<lparr>trace := trace w @ [Get_Parameter name]\<rparr>"
  by (simp add: get_parameter_def emit_def Let_def split: option.splits)

lemma delete_branch_addressed:
  assumes "addressed event sid rid lid url"
  shows "delete_branch en event ctx environment service pp pubp w =
     (Inr (), w\<lparr>trace := trace w @
        [Print (''Delete requested. Keys retained in SSM: '' @ pp @ '', '' @ pubp),
         Http_Put url (cfn_body ctx ''SUCCESS''
           (case PhysicalResourceId event of Some p \<Rightarrow> p | None \<Rightarrow> cf_keys environment service)
           sid rid lid (JObj [(''Message'', JStr ''Keys retained in SSM'')])),
         Print (delivery_line en url (cfn_body ctx ''SUCCESS''
           (case PhysicalResourceId event of Some p \<Rightarrow> p | None \<Rightarrow> cf_keys environment service)
           sid rid lid (JObj [(''Message'', JStr ''Keys retained in SSM'')])))]\<rparr>)"
  by (simp add: delete_branch_def emit_def Let_def send_response_addressed [OF assms])


lemma handler_create:
  assumes "request event ''Create'' environment service"
  shows "handler en event ctx w =
     (case create_branch en event ctx environment service
             (private_path environment service) (public_path environment service)
             (emit (Print_Event event) w) of
        (Inr u, w') \<Rightarrow> (Inr u, w')
      | (Inl e, w') \<Rightarrow>
          send_response en event ctx ''FAILED'' (JObj [(''Error'', JStr (str e))])
            (case PhysicalResourceId event of Some p \<Rightarrow> p | None \<Rightarrow> ''failed-resource'')
            (emit (Print (''Error: '' @ str e)) w'))"
  by (simp add: handler_try [OF assms] try_block_def)

lemma emit_simps [simp]:
  "trace (emit x w) = trace w @ [x]" "params (emit x w) = params w" "files (emit x w) = files w"
  by (simp_all add: emit_def)

lemma deliver_simps [simp]:
  "trace (deliver en url body w) = trace w @ [Http_Put url body, Print (delivery_line en url body)]"
  "params (deliver en url body w) = params w" "files (deliver en url body w) = files w"
  by (simp_all add: deliver_def)

lemma send_response_deliver:
  assumes "addressed event sid rid lid url"
  shows "send_response en event ctx status response_data pid w =
     (Inr (), deliver en url (cfn_body ctx status pid sid rid lid response_data) w)"
  by (simp add: send_response_addressed [OF assms] deliver_def)

lemma handler_catch:
  assumes "request event rt environment service" and "addressed event sid rid lid url"
  shows "handler en event ctx w =
     (case try_block en event ctx rt environment service (emit (Print_Event event) w) of
        (Inr u, w') \<Rightarrow> (Inr u, w')
      | (Inl e, w') \<Rightarrow>
          (Inr (), deliver en url (failed_body ctx event sid rid lid e)
                     (emit (Print (''Error: '' @ str e)) w')))"
  unfolding handler_try [OF assms(1)] send_response_deliver [OF assms(2)] by (rule refl)

lemma handler_other:
  assumes "request event rt environment service"
    and "rt \<noteq> ''Create''" "rt \<noteq> ''Update''" "rt \<noteq> ''Delete''"
  shows "handler en event ctx w = (Inr (), emit (Print_Event event) w)"
  using assms(2-4) by (simp add: handler_try [OF assms(1)] try_block_def)

lemma handler_delete:
  assumes "request event ''Delete'' environment service" and "addressed event sid rid lid url"
  shows "handler en event ctx w =
     (Inr (), deliver en url
        (cfn_body ctx ''SUCCESS''
           (case PhysicalResourceId event of Some p \<Rightarrow> p | None \<Rightarrow> cf_keys environment service)
           sid rid lid (JObj [(''Message'', JStr ''Keys retained in SSM'')]))
        (emit (Print (''Delete requested. Keys retained in SSM: '' @
                 private_path environment service @ '', '' @ public_path environment service))
           (emit (Print_Event event) w)))"
  by (simp add: handler_catch [OF assms] try_block_def delete_branch_def Let_def
        send_response_deliver [OF assms(2)])

lemma handler_update_found:
  assumes "request event ''Update'' environment service" and "addressed event sid rid lid url"
    and "PhysicalResourceId event = Some pid"
    and "get_fault en (public_path environment service) = None"
    and "params w (public_path environment service) = Some p"
  shows "handler en event ctx w =
     (Inr (), deliver en url
        (cfn_body ctx ''SUCCESS'' pid sid rid lid (keys_data (Value p) environment service))
        (emit (Get_Parameter (public_path environment service)) (emit (Print_Event event) w)))"
  using assms(3-5)
  by (simp add: handler_catch [OF assms(1,2)] try_block_def update_branch_def get_parameter_def
        Let_def send_response_deliver [OF assms(2)])

lemma ex_request: "request (ex_event rt svc pid) rt ''prod'' svc"
  by (simp add: request_def ex_event_def)

lemma ex_addressed:
  "addressed (ex_event rt svc pid) ''stack-1'' ''req-1'' ''Keys'' ''https://cfn/cb''"
  by (simp add: addressed_def ex_event_def)

lemma ex_delete_callbacks:
  "callbacks (trace (snd (handler ex_env (ex_event ''Delete'' ''edge'' (Some ''cf-keys-prod-edge''))
      ex_ctx ex_stored))) =
   [cfn_body ex_ctx ''SUCCESS'' ''cf-keys-prod-edge'' ''stack-1'' ''req-1'' ''Keys''
      (JObj [(''Message'', JStr ''Keys retained in SSM'')])]"
  unfolding handler_delete [OF ex_request ex_addressed]
  by (simp add: ex_stored_def ex_world_def ex_event_def)

lemma handler_returns:
  assumes "request event rt environment service" and "addressed event sid rid lid url"
  shows "fst (handler en event ctx w) = Inr ()"
  by (simp add: handler_catch [OF assms] split: prod.split sum.split)

lemma get_parameter_fst_emit:
  "fst (get_parameter en name (emit x w)) = fst (get_parameter en name w)"
  by (simp add: get_parameter_def Let_def split: option.splits)

lemma get_parameter_eq:
  "get_parameter en name w = (fst (get_parameter en name w), emit (Get_Parameter name) w)"
  by (simp add: get_parameter_def emit_def Let_def split: option.splits)

lemma request_create:
  "request event rt environment service \<Longrightarrow>
   request (event\<lparr>RequestType := Some ''Create''\<rparr>) ''Create'' environment service"
  by (simp add: request_def)

lemma addressed_create:
  "addressed event sid rid lid url \<Longrightarrow>
   addressed (event\<lparr>RequestType := Some ''Create''\<rparr>) sid rid lid url"
  by (simp add: addressed_def)

lemma handler_update_fallback:
  assumes "request event ''Update'' environment service" and "addressed event sid rid lid url"
    and "fst (get_parameter en (public_path environment service) w) = Inl (ParameterNotFound m)"
  shows "handler en event ctx w =
     handler en (event\<lparr>RequestType := Some ''Create''\<rparr>) ctx
       (emit (Print ''Keys not found, creating new keys...'')
          (emit (Get_Parameter (public_path environment service)) (emit (Print_Event event) w)))"
proof -
  let ?w0 = "emit (Print_Event event) w"
  have g: "get_parameter en (public_path environment service) ?w0 =
      (Inl (ParameterNotFound m), emit (Get_Parameter (public_path environment service)) ?w0)"
    apply (subst get_parameter_eq)
    using assms(3) apply (simp add: get_parameter_fst_emit)
    done
  have u: "update_branch en event ctx (private_path environment service)
      (public_path environment service) ?w0 =
      (Inl (ParameterNotFound m), emit (Get_Parameter (public_path environment service)) ?w0)"
    by (rule update_branch_read_fail [OF g])
  let ?ev = "event\<lparr>RequestType := Some ''Create''\<rparr>"
  let ?w2 = "emit (Print ''Keys not found, creating new keys...'')
      (emit (Get_Parameter (public_path environment service)) ?w0)"
  have t: "try_block en event ctx ''Update'' environment service ?w0 = handler en ?ev ctx ?w2"
    unfolding try_block_def u by simp
  have "fst (handler en ?ev ctx ?w2) = Inr ()"
    by (rule handler_returns [OF request_create [OF assms(1)] addressed_create [OF assms(2)]])
  then obtain w' where h: "handler en ?ev ctx ?w2 = (Inr (), w')"
    by (cases "handler en ?ev ctx ?w2") simp
  show ?thesis
    unfolding handler_catch [OF assms(1,2)] t unfolding h by simp
qed

lemma try_block_create:
  "try_block en event ctx ''Create'' environment service w =
     create_branch en event ctx environment service
       (private_path environment service) (public_path environment service) w"
  unfolding try_block_def by simp

lemma handler_create_keygen_fail:
  assumes "request event ''Create'' environment service" and "addressed event sid rid lid url"
    and "generate_keypair en (emit (Print_Event event) w) = (Inl e, w1)"
  shows "handler en event ctx w =
     (Inr (), deliver en url (failed_body ctx event sid rid lid e)
                (emit (Print (''Error: '' @ str e)) w1))"
  unfolding handler_catch [OF assms(1,2)] try_block_create create_branch_keygen_fail [OF assms(3)]
  by simp

lemma handler_create_private_fail:
  assumes "request event ''Create'' environment service" and "addressed event sid rid lid url"
    and "generate_keypair en (emit (Print_Event event) w) = (Inr (private_key_pem, public_key_pem), w1)"
    and "put_fault en (private_path environment service) = Some e"
  shows "handler en event ctx w =
     (Inr (), deliver en url (failed_body ctx event sid rid lid e)
        (emit (Print (''Error: '' @ str e))
           (emit (Put_Parameter (private_path environment service) (b64encode private_key_pem)
                    ''SecureString'' private_descr True) w1)))"
  unfolding handler_catch [OF assms(1,2)] try_block_create
    create_branch_private_fail [OF assms(3,4)]
  by (simp add: emit_def)

lemma handler_create_public_fail:
  assumes "request event ''Create'' environment service" and "addressed event sid rid lid url"
    and "generate_keypair en (emit (Print_Event event) w) = (Inr (private_key_pem, public_key_pem), w1)"
    and "put_fault en (private_path environment service) = None"
    and "put_fault en (public_path environment service) = Some e"
  shows "handler en event ctx w =
     (Inr (), deliver en url (failed_body ctx event sid rid lid e)
        (emit (Print (''Error: '' @ str e))
           (w1\<lparr>params := (params w1)(private_path environment service \<mapsto>
                 \<lparr>Value = b64encode private_key_pem, Type = ''SecureString'',
                  Description = private_descr\<rparr>),
               trace := trace w1 @
                 [Put_Parameter (private_path environment service) (b64encode private_key_pem)
                    ''SecureString'' private_descr True,
                  Print (''Stored private key in SSM: '' @ private_path environment service),
                  Put_Parameter (public_path environment service) public_key_pem
                    ''String'' public_descr True]\<rparr>)))"
  unfolding handler_catch [OF assms(1,2)] try_block_create
    create_branch_public_fail [OF assms(3,4,5)]
  by simp

lemma handler_create_stored:
  assumes "request event ''Create'' environment service" and "addressed event sid rid lid url"
    and "generate_keypair en (emit (Print_Event event) w) = (Inr (private_key_pem, public_key_pem), w1)"
    and "put_fault en (private_path environment service) = None"
    and "put_fault en (public_path environment service) = None"
  shows "handler en event ctx w =
     (Inr (), deliver en url
        (cfn_body ctx ''SUCCESS'' (cf_keys environment service) sid rid lid
           (keys_data public_key_pem environment service))
        (w1\<lparr>params := (params w1)
              (private_path environment service \<mapsto>
                 \<lparr>Value = b64encode private_key_pem, Type = ''SecureString'',
                  Description = private_descr\<rparr>,
               public_path environment service \<mapsto>
                 \<lparr>Value = public_key_pem, Type = ''String'', Description = public_descr\<rparr>),
            trace := trace w1 @
              [Put_Parameter (private_path environment service) (b64encode private_key_pem)
                 ''SecureString'' private_descr True,
               Print (''Stored private key in SSM: '' @ private_path environment service),
               Put_Parameter (public_path environment service) public_key_pem
                 ''String'' public_descr True,
               Print (''Stored public key in SSM: '' @ public_path environment service)]\<rparr>))"
  unfolding handler_catch [OF assms(1,2)] try_block_create
    create_branch_ok [OF assms(3,4,5,2)]
  by (simp add: deliver_def)

lemma generate_keypair_frame_emit:
  assumes "generate_keypair en (emit x w) = (r, w1)"
  shows "params w1 = params w"
    and "store_writes (trace w1) = store_writes (trace w) @ store_writes [x]"
    and "callbacks (trace w1) = callbacks (trace w) @ callbacks [x]"
proof -
  from generate_keypair_frame [OF assms] obtain ks
    where p: "params w1 = params (emit x w)" and t: "trace w1 = trace (emit x w) @ ks"
      and c: "callbacks ks = []" and s: "store_writes ks = []"
    by blast
  show "params w1 = params w" using p by simp
  show "store_writes (trace w1) = store_writes (trace w) @ store_writes [x]"
    unfolding t by (simp only: emit_simps store_writes_append s append_Nil2)
  show "callbacks (trace w1) = callbacks (trace w) @ callbacks [x]"
    unfolding t by (simp only: emit_simps callbacks_append c append_Nil2)
qed

lemma ex_generate:
  assumes "mkdtemp en = Inr ''/tmp/tmpk''" and "openssl en = ex_openssl"
  shows "generate_keypair en w =
     (Inr (''PRIV\<newline>'', ''PUB''),
      w\<lparr>files := cleanup ''/tmp/tmpk''
           ((files w)(''/tmp/tmpk/private.pem'' \<mapsto> ''PRIV'' @ [CHR 0x0D, CHR 0x0A],
                      ''/tmp/tmpk/public.pem'' \<mapsto> ''PUB'')),
        trace := trace w @
          [Print ''Generating RSA 2048-bit key pair...'',
           Run [''openssl'', ''genrsa'', ''-out'', ''/tmp/tmpk/private.pem'', ''2048''],
           Run [''openssl'', ''rsa'', ''-in'', ''/tmp/tmpk/private.pem'', ''-pubout'', ''-out'',
                ''/tmp/tmpk/public.pem'']]\<rparr>)"
  using generate_keypair_ok [where en = en and w = w and tmpdir = "''/tmp/tmpk''"
      and ?fs1.0 = "(files w)(''/tmp/tmpk/private.pem'' \<mapsto> ''PRIV'' @ [CHR 0x0D, CHR 0x0A])"
      and ?fs2.0 = "(files w)(''/tmp/tmpk/private.pem'' \<mapsto> ''PRIV'' @ [CHR 0x0D, CHR 0x0A],
                              ''/tmp/tmpk/public.pem'' \<mapsto> ''PUB'')"
      and private_bytes = "''PRIV'' @ [CHR 0x0D, CHR 0x0A]" and public_bytes = "''PUB''"]
  by (simp add: assms ex_openssl_def path_join_def utf8_cont_def)

lemma ex_b64: "b64encode ''PRIV\<newline>'' = ''UFJJVgo=''"
  by (simp add: b64encode_def b64_char_def b64_alphabet_def)

lemma ex_denied_fields:
  "mkdtemp ex_denied = Inr ''/tmp/tmpk''" "openssl ex_denied = ex_openssl"
  "put_fault ex_denied ''/prod/edge/cloudfront/private-key'' = None"
  "put_fault ex_denied ''/prod/edge/cloudfront/public-key'' = Some (Error ''AccessDeniedException'')"
  by (simp_all add: ex_denied_def ex_env_def)

lemma ex_denied_run:
  "handler ex_denied (ex_event ''Create'' ''edge'' None) ex_ctx ex_world =
     (Inr (), deliver ex_denied ''https://cfn/cb''
        (failed_body ex_ctx (ex_event ''Create'' ''edge'' None) ''stack-1'' ''req-1'' ''Keys''
           (Error ''AccessDeniedException''))
        (emit (Print ''Error: AccessDeniedException'')
           (ex_world\<lparr>files := cleanup ''/tmp/tmpk''
                 [''/tmp/tmpk/private.pem'' \<mapsto> ''PRIV'' @ [CHR 0x0D, CHR 0x0A],
                  ''/tmp/tmpk/public.pem'' \<mapsto> ''PUB''],
               params := [''/prod/edge/cloudfront/private-key'' \<mapsto>
                 \<lparr>Value = ''UFJJVgo='', Type = ''SecureString'', Description = private_descr\<rparr>],
               trace :=
                 [Print_Event (ex_event ''Create'' ''edge'' None),
                  Print ''Generating RSA 2048-bit key pair...'',
                  Run [''openssl'', ''genrsa'', ''-out'', ''/tmp/tmpk/private.pem'', ''2048''],
                  Run [''openssl'', ''rsa'', ''-in'', ''/tmp/tmpk/private.pem'', ''-pubout'',
                       ''-out'', ''/tmp/tmpk/public.pem''],
                  Put_Parameter ''/prod/edge/cloudfront/private-key'' ''UFJJVgo=''
                    ''SecureString'' private_descr True,
                  Print ''Stored private key in SSM: /prod/edge/cloudfront/private-key'',
                  Put_Parameter ''/prod/edge/cloudfront/public-key'' ''PUB''
                    ''String'' public_descr True]\<rparr>)))"
  apply (subst handler_create_public_fail [OF ex_request ex_addressed
        ex_generate [OF ex_denied_fields(1,2)], where e = "Error ''AccessDeniedException''"])
    apply (simp_all add: ex_denied_fields ex_b64 ex_world_def emit_def)
  done

lemma create_keygen_fail_outcome:
  assumes "request event ''Create'' environment service" and "addressed event sid rid lid url"
    and "generate_keypair en (emit (Print_Event event) w) = (Inl e, w1)"
  shows "\<exists>w'. handler en event ctx w = (Inr (), w') \<and> params w' = params w \<and>
     store_writes (trace w') = store_writes (trace w) \<and>
     callbacks (trace w') = callbacks (trace w) @ [failed_body ctx event sid rid lid e]"
  unfolding handler_create_keygen_fail [OF assms]
  using generate_keypair_frame_emit [OF assms(3)]
  by (simp add: store_writes_append callbacks_append)

lemma create_private_fail_outcome:
  assumes "request event ''Create'' environment service" and "addressed event sid rid lid url"
    and "generate_keypair en (emit (Print_Event event) w) = (Inr (private_key_pem, public_key_pem), w1)"
    and "put_fault en (private_path environment service) = Some e"
  shows "\<exists>w'. handler en event ctx w = (Inr (), w') \<and> params w' = params w \<and>
     store_writes (trace w') = store_writes (trace w) @
       [Put_Parameter (private_path environment service) (b64encode private_key_pem)
          ''SecureString'' private_descr True] \<and>
     callbacks (trace w') = callbacks (trace w) @ [failed_body ctx event sid rid lid e]"
  unfolding handler_create_private_fail [OF assms]
  using generate_keypair_frame_emit [OF assms(3)]
  by (simp add: store_writes_append callbacks_append)

lemma create_public_fail_outcome:
  assumes "request event ''Create'' environment service" and "addressed event sid rid lid url"
    and "generate_keypair en (emit (Print_Event event) w) = (Inr (private_key_pem, public_key_pem), w1)"
    and "put_fault en (private_path environment service) = None"
    and "put_fault en (public_path environment service) = Some e"
  shows "\<exists>w'. handler en event ctx w = (Inr (), w') \<and>
     params w' = (params w)(private_path environment service \<mapsto>
        \<lparr>Value = b64encode private_key_pem, Type = ''SecureString'',
         Description = private_descr\<rparr>) \<and>
     store_writes (trace w') = store_writes (trace w) @
       [Put_Parameter (private_path environment service) (b64encode private_key_pem)
          ''SecureString'' private_descr True,
        Put_Parameter (public_path environment service) public_key_pem
          ''String'' public_descr True] \<and>
     callbacks (trace w') = callbacks (trace w) @ [failed_body ctx event sid rid lid e]"
  unfolding handler_create_public_fail [OF assms]
  using generate_keypair_frame_emit [OF assms(3)]
  by (simp add: store_writes_append callbacks_append)

lemma create_stored_outcome:
  assumes "request event ''Create'' environment service" and "addressed event sid rid lid url"
    and "generate_keypair en (emit (Print_Event event) w) = (Inr (private_key_pem, public_key_pem), w1)"
    and "put_fault en (private_path environment service) = None"
    and "put_fault en (public_path environment service) = None"
  shows "\<exists>w'. handler en event ctx w = (Inr (), w') \<and>
     params w' = (params w)
       (private_path environment service \<mapsto>
          \<lparr>Value = b64encode private_key_pem, Type = ''SecureString'',
           Description = private_descr\<rparr>,
        public_path environment service \<mapsto>
          \<lparr>Value = public_key_pem, Type = ''String'', Description = public_descr\<rparr>) \<and>
     store_writes (trace w') = store_writes (trace w) @
       [Put_Parameter (private_path environment service) (b64encode private_key_pem)
          ''SecureString'' private_descr True,
        Put_Parameter (public_path environment service) public_key_pem
          ''String'' public_descr True] \<and>
     callbacks (trace w') = callbacks (trace w) @
       [cfn_body ctx ''SUCCESS'' (cf_keys environment service) sid rid lid
          (keys_data public_key_pem environment service)]"
  unfolding handler_create_stored [OF assms]
  using generate_keypair_frame_emit [OF assms(3)]
  by (simp add: store_writes_append callbacks_append)

lemma handler_create_success:
  assumes "request event ''Create'' environment service"
    and "addressed event sid rid lid url"
    and "mkdtemp en = Inr tmpdir"
    and "openssl en [''openssl'', ''genrsa'', ''-out'', path_join tmpdir ''private.pem'', ''2048'']
           (files w) = Inr fs1"
    and "openssl en [''openssl'', ''rsa'', ''-in'', path_join tmpdir ''private.pem'', ''-pubout'',
           ''-out'', path_join tmpdir ''public.pem''] fs1 = Inr fs2"
    and "fs2 (path_join tmpdir ''private.pem'') = Some private_bytes"
    and "fs2 (path_join tmpdir ''public.pem'') = Some public_bytes"
    and "utf8_valid (map of_char private_bytes)"
    and "utf8_valid (map of_char public_bytes)"
    and "put_fault en (private_path environment service) = None"
    and "put_fault en (public_path environment service) = None"
  shows "handler en event ctx w =
     (Inr (), deliver en url
        (cfn_body ctx ''SUCCESS'' (cf_keys environment service) sid rid lid
           (keys_data (universal_newlines public_bytes) environment service))
        (w\<lparr>files := cleanup tmpdir fs2,
           params := (params w)
             (private_path environment service \<mapsto>
                \<lparr>Value = b64encode (universal_newlines private_bytes), Type = ''SecureString'',
                 Description = private_descr\<rparr>,
              public_path environment service \<mapsto>
                \<lparr>Value = universal_newlines public_bytes, Type = ''String'',
                 Description = public_descr\<rparr>),
           trace := trace w @
             [Print_Event event,
              Print ''Generating RSA 2048-bit key pair...'',
              Run [''openssl'', ''genrsa'', ''-out'', path_join tmpdir ''private.pem'', ''2048''],
              Run [''openssl'', ''rsa'', ''-in'', path_join tmpdir ''private.pem'', ''-pubout'',
                   ''-out'', path_join tmpdir ''public.pem''],
              Put_Parameter (private_path environment service)
                (b64encode (universal_newlines private_bytes)) ''SecureString'' private_descr True,
              Print (''Stored private key in SSM: '' @ private_path environment service),
              Put_Parameter (public_path environment service) (universal_newlines public_bytes)
                ''String'' public_descr True,
              Print (''Stored public key in SSM: '' @ public_path environment service)]\<rparr>))"
proof -
  have files0: "files (emit (Print_Event event) w) = files w"
    by (simp add: emit_def)
  have g: "generate_keypair en (emit (Print_Event event) w) =
     (Inr (universal_newlines private_bytes, universal_newlines public_bytes),
      (emit (Print_Event event) w)\<lparr>files := cleanup tmpdir fs2,
        trace := trace (emit (Print_Event event) w) @
          [Print ''Generating RSA 2048-bit key pair...'',
           Run [''openssl'', ''genrsa'', ''-out'', path_join tmpdir ''private.pem'', ''2048''],
           Run [''openssl'', ''rsa'', ''-in'', path_join tmpdir ''private.pem'', ''-pubout'',
                ''-out'', path_join tmpdir ''public.pem'']]\<rparr>)"
    using assms(3-9)
    by (intro generate_keypair_ok [where ?fs1.0 = fs1]) (simp_all add: files0)
  show ?thesis
    unfolding handler_create_stored [OF assms(1,2) g assms(10,11)]
    by (simp add: emit_def)
qed

lemma create_branch_fail_callbacks:
  assumes "addressed event sid rid lid url"
    and "create_branch en event ctx environment service ppath qpath w = (Inl e, w1)"
  shows "callbacks (trace w1) = callbacks (trace w)"
proof -
  obtain r w0 where g: "generate_keypair en w = (r, w0)" by (cases "generate_keypair en w")
  from generate_keypair_frame [OF g] obtain ks
    where t: "trace w0 = trace w @ ks" and c: "callbacks ks = []" by blast
  have c0: "callbacks (trace w0) = callbacks (trace w)"
    unfolding t by (simp add: callbacks_append c)
  show ?thesis
    using assms(2) c0
    by (auto simp: create_branch_def g put_parameter_def Let_def emit_def callbacks_append
          send_response_addressed [OF assms(1)]
          split: sum.splits prod.splits option.splits if_splits)
qed

lemma update_branch_fail_callbacks:
  assumes "addressed event sid rid lid url"
    and "update_branch en event ctx ppath qpath w = (Inl e, w1)"
  shows "callbacks (trace w1) = callbacks (trace w)"
  using assms(2)
  by (auto simp: update_branch_def get_parameter_def Let_def emit_def callbacks_append
        send_response_addressed [OF assms(1)]
        split: sum.splits prod.splits option.splits if_splits)

lemma try_block_fail_callbacks:
  assumes "request event rt environment service" and "addressed event sid rid lid url"
    and "try_block en event ctx rt environment service w = (Inl e, w1)"
  shows "callbacks (trace w1) = callbacks (trace w)"
proof -
  consider "rt = ''Create''" | "rt = ''Update''" | "rt = ''Delete''"
    | "rt \<noteq> ''Create''" "rt \<noteq> ''Update''" "rt \<noteq> ''Delete''" by blast
  then show ?thesis
  proof cases
    case 1
    show ?thesis
      using assms(3) unfolding 1 try_block_create
      by (rule create_branch_fail_callbacks [OF assms(2)])
  next
    case 2
    obtain r w0 where u: "update_branch en event ctx (private_path environment service)
        (public_path environment service) w = (r, w0)"
      by (cases "update_branch en event ctx (private_path environment service)
        (public_path environment service) w")
    have ret: "fst (handler en (event\<lparr>RequestType := Some ''Create''\<rparr>) ctx w') = Inr ()" for w'
      by (rule handler_returns [OF request_create [OF assms(1)] addressed_create [OF assms(2)]])
    have "r = Inl e \<and> w0 = w1"
    proof (cases r)
      case (Inr u')
      then show ?thesis using assms(3) unfolding 2 try_block_def u by simp
    next
      case (Inl e')
      show ?thesis
      proof (cases e')
        case (ParameterNotFound m)
        have "try_block en event ctx ''Update'' environment service w =
            handler en (event\<lparr>RequestType := Some ''Create''\<rparr>) ctx
              (emit (Print ''Keys not found, creating new keys...'') w0)"
          unfolding try_block_def u Inl ParameterNotFound by simp
        then have "fst (try_block en event ctx ''Update'' environment service w) = Inr ()"
          by (simp only: ret)
        then show ?thesis using assms(3) unfolding 2 by simp
      next
        case (KeyError k)
        then show ?thesis using assms(3) unfolding 2 try_block_def u Inl by simp
      next
        case (Error k)
        then show ?thesis using assms(3) unfolding 2 try_block_def u Inl by simp
      qed
    qed
    then have "update_branch en event ctx (private_path environment service)
        (public_path environment service) w = (Inl e, w1)"
      using u by simp
    then show ?thesis by (rule update_branch_fail_callbacks [OF assms(2)])
  next
    case 3
    show ?thesis
      using assms(3) unfolding 3 try_block_def
      by (simp add: delete_branch_def Let_def send_response_addressed [OF assms(2)])
  next
    case 4
    then show ?thesis using assms(3) unfolding try_block_def by simp
  qed
qed

section \<open>The claims\<close>

text \<open>
  C1. For an event with \<^verbatim>\<open>RequestType = Create\<close> that carries every field the function
  reads, when \<^verbatim>\<open>openssl genrsa ... 2048\<close> and \<^verbatim>\<open>openssl rsa -pubout\<close> succeed and leave two
  files of well-formed UTF-8 and the store accepts both writes, the function runs the two
  commands, writes the private key base64-encoded as a \<^verbatim>\<open>SecureString\<close> and then the public
  key as it is as a \<^verbatim>\<open>String\<close>, both with \<^verbatim>\<open>Overwrite=True\<close> and under the two paths, makes
  no other call to the store, and then sends one callback: \<^verbatim>\<open>SUCCESS\<close>, the identifier
  \<^verbatim>\<open>cf-keys-{Environment}-{Service}\<close>, and \<^verbatim>\<open>Data\<close> holding the public key and the two paths.
  The key texts are the contents of the two files as text mode reads them (CR LF and CR
  become LF). Base64-encoded means that the decoder of RFC 4648 gives the private key text
  back from the stored value.
\<close>

theorem create_stores_keys_and_reports:
  assumes "request event ''Create'' environment service"
    and "addressed event stack_id request_id logical_id url"
    and "mkdtemp en = Inr tmpdir"
    and "openssl en [''openssl'', ''genrsa'', ''-out'', path_join tmpdir ''private.pem'', ''2048'']
           (files w) = Inr fs1"
    and "openssl en [''openssl'', ''rsa'', ''-in'', path_join tmpdir ''private.pem'', ''-pubout'',
           ''-out'', path_join tmpdir ''public.pem''] fs1 = Inr fs2"
    and "fs2 (path_join tmpdir ''private.pem'') = Some private_bytes"
    and "fs2 (path_join tmpdir ''public.pem'') = Some public_bytes"
    and "utf8_valid (map of_char private_bytes)"
    and "utf8_valid (map of_char public_bytes)"
    and "private_key_pem = universal_newlines private_bytes"
    and "public_key_pem = universal_newlines public_bytes"
    and "put_fault en (private_path environment service) = None"
    and "put_fault en (public_path environment service) = None"
  shows "\<exists>line w'. handler en event ctx w = (Inr (), w') \<and>
     map_option (\<lambda>p. (b64decode (Value p), Type p))
       (params w' (private_path environment service)) =
       Some (Some private_key_pem, ''SecureString'') \<and>
     map_option (\<lambda>p. (Value p, Type p)) (params w' (public_path environment service)) =
       Some (public_key_pem, ''String'') \<and>
     w' =
      w\<lparr>files := cleanup tmpdir fs2,
        params := (params w)
          (private_path environment service \<mapsto>
             \<lparr>Value = b64encode private_key_pem, Type = ''SecureString'',
              Description = ''CloudFront private key for signing URLs (base64 encoded)''\<rparr>,
           public_path environment service \<mapsto>
             \<lparr>Value = public_key_pem, Type = ''String'',
              Description = ''CloudFront public key for signing URLs''\<rparr>),
        trace := trace w @
          [Print_Event event,
           Print ''Generating RSA 2048-bit key pair...'',
           Run [''openssl'', ''genrsa'', ''-out'', path_join tmpdir ''private.pem'', ''2048''],
           Run [''openssl'', ''rsa'', ''-in'', path_join tmpdir ''private.pem'', ''-pubout'',
                ''-out'', path_join tmpdir ''public.pem''],
           Put_Parameter (private_path environment service) (b64encode private_key_pem)
             ''SecureString'' ''CloudFront private key for signing URLs (base64 encoded)'' True,
           Print (''Stored private key in SSM: '' @ private_path environment service),
           Put_Parameter (public_path environment service) public_key_pem
             ''String'' ''CloudFront public key for signing URLs'' True,
           Print (''Stored public key in SSM: '' @ public_path environment service),
           Http_Put url (JObj
             [(''Status'', JStr ''SUCCESS''),
              (''Reason'', JStr (''See CloudWatch Log Stream: '' @ log_stream_name ctx)),
              (''PhysicalResourceId'', JStr (''cf-keys-'' @ environment @ ''-'' @ service)),
              (''StackId'', JStr stack_id),
              (''RequestId'', JStr request_id),
              (''LogicalResourceId'', JStr logical_id),
              (''Data'', JObj
                 [(''PublicKey'', JStr public_key_pem),
                  (''PublicKeySSMPath'', JStr (public_path environment service)),
                  (''PrivateKeySSMPath'', JStr (private_path environment service))])]),
           Print line]\<rparr>"
proof -
  have files0: "files (emit (Print_Event event) w) = files w"
    by (simp add: emit_def)
  have g: "generate_keypair en (emit (Print_Event event) w) =
     (Inr (private_key_pem, public_key_pem),
      (emit (Print_Event event) w)\<lparr>files := cleanup tmpdir fs2,
        trace := trace (emit (Print_Event event) w) @
          [Print ''Generating RSA 2048-bit key pair...'',
           Run [''openssl'', ''genrsa'', ''-out'', path_join tmpdir ''private.pem'', ''2048''],
           Run [''openssl'', ''rsa'', ''-in'', path_join tmpdir ''private.pem'', ''-pubout'',
                ''-out'', path_join tmpdir ''public.pem'']]\<rparr>)"
    unfolding assms(10,11) using assms(3-9)
    by (intro generate_keypair_ok [where ?fs1.0 = fs1]) (simp_all add: files0)
  show ?thesis
    unfolding handler_create [OF assms(1)]
      create_branch_ok [OF g assms(12) assms(13) assms(2)]
    by (rule exI [where x = "delivery_line en url (cfn_body ctx ''SUCCESS''
          (cf_keys environment service) stack_id request_id logical_id
          (JObj [(''PublicKey'', JStr public_key_pem),
                 (''PublicKeySSMPath'', JStr (public_path environment service)),
                 (''PrivateKeySSMPath'', JStr (private_path environment service))]))"])
       (simp add: emit_def cfn_body_def b64decode_b64encode)
qed

theorem create_stores_keys_and_reports_witness:
  "fst (handler ex_env (ex_event ''Create'' ''edge'' None) ex_ctx ex_world) = Inr () \<and>
   map_option (\<lambda>p. (Value p, b64decode (Value p), Type p))
     (params (snd (handler ex_env (ex_event ''Create'' ''edge'' None) ex_ctx ex_world))
        ''/prod/edge/cloudfront/private-key'') =
     Some (''UFJJVgo='', Some ''PRIV\<newline>'', ''SecureString'') \<and>
   actions (trace (snd (handler ex_env (ex_event ''Create'' ''edge'' None) ex_ctx ex_world))) =
     [Run [''openssl'', ''genrsa'', ''-out'', ''/tmp/tmpk/private.pem'', ''2048''],
      Run [''openssl'', ''rsa'', ''-in'', ''/tmp/tmpk/private.pem'', ''-pubout'', ''-out'',
           ''/tmp/tmpk/public.pem''],
      Put_Parameter ''/prod/edge/cloudfront/private-key'' ''UFJJVgo='' ''SecureString''
        ''CloudFront private key for signing URLs (base64 encoded)'' True,
      Put_Parameter ''/prod/edge/cloudfront/public-key'' ''PUB'' ''String''
        ''CloudFront public key for signing URLs'' True,
      Http_Put ''https://cfn/cb'' (JObj
        [(''Status'', JStr ''SUCCESS''),
         (''Reason'', JStr ''See CloudWatch Log Stream: log-1''),
         (''PhysicalResourceId'', JStr ''cf-keys-prod-edge''),
         (''StackId'', JStr ''stack-1''),
         (''RequestId'', JStr ''req-1''),
         (''LogicalResourceId'', JStr ''Keys''),
         (''Data'', JObj
            [(''PublicKey'', JStr ''PUB''),
             (''PublicKeySSMPath'', JStr ''/prod/edge/cloudfront/public-key''),
             (''PrivateKeySSMPath'', JStr ''/prod/edge/cloudfront/private-key'')])])]"
proof -
  have genrsa: "openssl ex_env
      [''openssl'', ''genrsa'', ''-out'', path_join ''/tmp/tmpk'' ''private.pem'', ''2048'']
      (files ex_world) = Inr [''/tmp/tmpk/private.pem'' \<mapsto> ''PRIV'' @ [CHR 0x0D, CHR 0x0A]]"
    by (simp add: ex_env_def ex_openssl_def ex_world_def path_join_def)
  have pubout: "openssl ex_env
      [''openssl'', ''rsa'', ''-in'', path_join ''/tmp/tmpk'' ''private.pem'', ''-pubout'',
       ''-out'', path_join ''/tmp/tmpk'' ''public.pem'']
      [''/tmp/tmpk/private.pem'' \<mapsto> ''PRIV'' @ [CHR 0x0D, CHR 0x0A]] =
      Inr [''/tmp/tmpk/private.pem'' \<mapsto> ''PRIV'' @ [CHR 0x0D, CHR 0x0A],
           ''/tmp/tmpk/public.pem'' \<mapsto> ''PUB'']"
    by (simp add: ex_env_def ex_openssl_def path_join_def)
  show ?thesis
    using create_stores_keys_and_reports
      [where event = "ex_event ''Create'' ''edge'' None" and ctx = ex_ctx
         and private_bytes = "''PRIV'' @ [CHR 0x0D, CHR 0x0A]" and public_bytes = "''PUB''"
         and private_key_pem = "''PRIV\<newline>''" and public_key_pem = "''PUB''",
       OF ex_request ex_addressed _ genrsa pubout]
    by (clarsimp simp add: ex_env_def actions_def ex_world_def ex_ctx_def path_join_def
          b64encode_def b64_char_def b64_alphabet_def)
qed




text \<open>
  C3. For an event with \<^verbatim>\<open>RequestType = Update\<close> that carries every field the function reads
  and a \<^verbatim>\<open>PhysicalResourceId\<close>, when the read of the public-key path succeeds, the function
  makes that one read and nothing else (no write, no command is run, files and parameters
  are as before) and sends one callback: \<^verbatim>\<open>SUCCESS\<close>, the \<^verbatim>\<open>PhysicalResourceId\<close> of the
  event unchanged, and \<^verbatim>\<open>Data\<close> of the same three members as Create, with \<^verbatim>\<open>PublicKey\<close>
  the stored value.
\<close>

theorem update_found_echoes:
  assumes "request event ''Update'' environment service"
    and "addressed event stack_id request_id logical_id url"
    and "PhysicalResourceId event = Some physical_resource_id"
    and "get_fault en (public_path environment service) = None"
    and "params w (public_path environment service) = Some p"
  shows "\<exists>line. handler en event ctx w =
     (Inr (),
      w\<lparr>trace := trace w @
          [Print_Event event,
           Get_Parameter (public_path environment service),
           Http_Put url (JObj
             [(''Status'', JStr ''SUCCESS''),
              (''Reason'', JStr (''See CloudWatch Log Stream: '' @ log_stream_name ctx)),
              (''PhysicalResourceId'', JStr physical_resource_id),
              (''StackId'', JStr stack_id),
              (''RequestId'', JStr request_id),
              (''LogicalResourceId'', JStr logical_id),
              (''Data'', JObj
                 [(''PublicKey'', JStr (Value p)),
                  (''PublicKeySSMPath'', JStr (public_path environment service)),
                  (''PrivateKeySSMPath'', JStr (private_path environment service))])]),
           Print line]\<rparr>)"
  unfolding handler_update_found [OF assms]
  by (rule exI [where x = "delivery_line en url (cfn_body ctx ''SUCCESS'' physical_resource_id
          stack_id request_id logical_id (keys_data (Value p) environment service))"])
     (simp add: deliver_def emit_def cfn_body_def)

theorem update_found_echoes_witness:
  "fst (handler ex_env (ex_event ''Update'' ''edge'' (Some ''cf-keys-prod-edge'')) ex_ctx ex_stored)
     = Inr () \<and>
   params (snd (handler ex_env (ex_event ''Update'' ''edge'' (Some ''cf-keys-prod-edge'')) ex_ctx
     ex_stored)) = params ex_stored \<and>
   actions (trace (snd (handler ex_env (ex_event ''Update'' ''edge'' (Some ''cf-keys-prod-edge''))
     ex_ctx ex_stored))) =
     [Get_Parameter ''/prod/edge/cloudfront/public-key'',
      Http_Put ''https://cfn/cb'' (JObj
        [(''Status'', JStr ''SUCCESS''),
         (''Reason'', JStr ''See CloudWatch Log Stream: log-1''),
         (''PhysicalResourceId'', JStr ''cf-keys-prod-edge''),
         (''StackId'', JStr ''stack-1''),
         (''RequestId'', JStr ''req-1''),
         (''LogicalResourceId'', JStr ''Keys''),
         (''Data'', JObj
            [(''PublicKey'', JStr ''PUB''),
             (''PublicKeySSMPath'', JStr ''/prod/edge/cloudfront/public-key''),
             (''PrivateKeySSMPath'', JStr ''/prod/edge/cloudfront/private-key'')])])]"
  using update_found_echoes [where event = "ex_event ''Update'' ''edge'' (Some ''cf-keys-prod-edge'')"
      and environment = "''prod''" and service = "''edge''" and en = ex_env and w = ex_stored
      and ctx = ex_ctx and physical_resource_id = "''cf-keys-prod-edge''"
      and p = "\<lparr>Value = ''PUB'', Type = ''String'', Description = public_descr\<rparr>",
      OF ex_request ex_addressed]
  by (clarsimp simp add: ex_env_def ex_world_def ex_stored_def ex_ctx_def ex_event_def actions_def)

text \<open>
  C4. For an event with \<^verbatim>\<open>RequestType = Update\<close> that carries every field the function reads,
  when the read of the public-key path raises \<^verbatim>\<open>ParameterNotFound\<close> and key generation and
  the two writes then succeed as in C1, the function reads once, prints that the keys were
  not found, and runs the Create path on the event with its \<^verbatim>\<open>RequestType\<close> overwritten: the
  same two commands, the same two writes, and one callback, \<^verbatim>\<open>SUCCESS\<close> under
  \<^verbatim>\<open>cf-keys-{Environment}-{Service}\<close>, whatever \<^verbatim>\<open>PhysicalResourceId\<close> the event carries.
\<close>

theorem update_not_found_creates:
  assumes "request event ''Update'' environment service"
    and "addressed event stack_id request_id logical_id url"
    and "fst (get_parameter en (public_path environment service) w) = Inl (ParameterNotFound m)"
    and "mkdtemp en = Inr tmpdir"
    and "openssl en [''openssl'', ''genrsa'', ''-out'', path_join tmpdir ''private.pem'', ''2048'']
           (files w) = Inr fs1"
    and "openssl en [''openssl'', ''rsa'', ''-in'', path_join tmpdir ''private.pem'', ''-pubout'',
           ''-out'', path_join tmpdir ''public.pem''] fs1 = Inr fs2"
    and "fs2 (path_join tmpdir ''private.pem'') = Some private_bytes"
    and "fs2 (path_join tmpdir ''public.pem'') = Some public_bytes"
    and "utf8_valid (map of_char private_bytes)"
    and "utf8_valid (map of_char public_bytes)"
    and "private_key_pem = universal_newlines private_bytes"
    and "public_key_pem = universal_newlines public_bytes"
    and "put_fault en (private_path environment service) = None"
    and "put_fault en (public_path environment service) = None"
  shows "\<exists>line. handler en event ctx w =
     (Inr (),
      w\<lparr>files := cleanup tmpdir fs2,
        params := (params w)
          (private_path environment service \<mapsto>
             \<lparr>Value = b64encode private_key_pem, Type = ''SecureString'',
              Description = ''CloudFront private key for signing URLs (base64 encoded)''\<rparr>,
           public_path environment service \<mapsto>
             \<lparr>Value = public_key_pem, Type = ''String'',
              Description = ''CloudFront public key for signing URLs''\<rparr>),
        trace := trace w @
          [Print_Event event,
           Get_Parameter (public_path environment service),
           Print ''Keys not found, creating new keys...'',
           Print_Event (event\<lparr>RequestType := Some ''Create''\<rparr>),
           Print ''Generating RSA 2048-bit key pair...'',
           Run [''openssl'', ''genrsa'', ''-out'', path_join tmpdir ''private.pem'', ''2048''],
           Run [''openssl'', ''rsa'', ''-in'', path_join tmpdir ''private.pem'', ''-pubout'',
                ''-out'', path_join tmpdir ''public.pem''],
           Put_Parameter (private_path environment service) (b64encode private_key_pem)
             ''SecureString'' ''CloudFront private key for signing URLs (base64 encoded)'' True,
           Print (''Stored private key in SSM: '' @ private_path environment service),
           Put_Parameter (public_path environment service) public_key_pem
             ''String'' ''CloudFront public key for signing URLs'' True,
           Print (''Stored public key in SSM: '' @ public_path environment service),
           Http_Put url (JObj
             [(''Status'', JStr ''SUCCESS''),
              (''Reason'', JStr (''See CloudWatch Log Stream: '' @ log_stream_name ctx)),
              (''PhysicalResourceId'', JStr (''cf-keys-'' @ environment @ ''-'' @ service)),
              (''StackId'', JStr stack_id),
              (''RequestId'', JStr request_id),
              (''LogicalResourceId'', JStr logical_id),
              (''Data'', JObj
                 [(''PublicKey'', JStr public_key_pem),
                  (''PublicKeySSMPath'', JStr (public_path environment service)),
                  (''PrivateKeySSMPath'', JStr (private_path environment service))])]),
           Print line]\<rparr>)"
proof -
  let ?ev = "event\<lparr>RequestType := Some ''Create''\<rparr>"
  let ?w2 = "emit (Print ''Keys not found, creating new keys...'')
      (emit (Get_Parameter (public_path environment service)) (emit (Print_Event event) w))"
  have f2: "files ?w2 = files w" by simp
  have h: "handler en event ctx w = handler en ?ev ctx ?w2"
    by (rule handler_update_fallback [OF assms(1,2,3)])
  show ?thesis
    unfolding h assms(11,12)
      handler_create_success [OF request_create [OF assms(1)] addressed_create [OF assms(2)]
        assms(4) assms(5) [folded f2] assms(6-10) assms(13,14)]
    by (rule exI [where x = "delivery_line en url (cfn_body ctx ''SUCCESS''
          (cf_keys environment service) stack_id request_id logical_id
          (keys_data (universal_newlines public_bytes) environment service))"])
       (simp add: deliver_def emit_def cfn_body_def)
qed

theorem update_not_found_creates_witness:
  "fst (handler ex_env (ex_event ''Update'' ''edge'' (Some ''keys-2019'')) ex_ctx ex_world) = Inr () \<and>
   actions (trace (snd (handler ex_env (ex_event ''Update'' ''edge'' (Some ''keys-2019'')) ex_ctx
     ex_world))) =
     [Get_Parameter ''/prod/edge/cloudfront/public-key'',
      Run [''openssl'', ''genrsa'', ''-out'', ''/tmp/tmpk/private.pem'', ''2048''],
      Run [''openssl'', ''rsa'', ''-in'', ''/tmp/tmpk/private.pem'', ''-pubout'', ''-out'',
           ''/tmp/tmpk/public.pem''],
      Put_Parameter ''/prod/edge/cloudfront/private-key'' ''UFJJVgo='' ''SecureString''
        ''CloudFront private key for signing URLs (base64 encoded)'' True,
      Put_Parameter ''/prod/edge/cloudfront/public-key'' ''PUB'' ''String''
        ''CloudFront public key for signing URLs'' True,
      Http_Put ''https://cfn/cb'' (JObj
        [(''Status'', JStr ''SUCCESS''),
         (''Reason'', JStr ''See CloudWatch Log Stream: log-1''),
         (''PhysicalResourceId'', JStr ''cf-keys-prod-edge''),
         (''StackId'', JStr ''stack-1''),
         (''RequestId'', JStr ''req-1''),
         (''LogicalResourceId'', JStr ''Keys''),
         (''Data'', JObj
            [(''PublicKey'', JStr ''PUB''),
             (''PublicKeySSMPath'', JStr ''/prod/edge/cloudfront/public-key''),
             (''PrivateKeySSMPath'', JStr ''/prod/edge/cloudfront/private-key'')])])]"
proof -
  have nf: "fst (get_parameter ex_env (public_path ''prod'' ''edge'') ex_world) =
      Inl (ParameterNotFound ''/prod/edge/cloudfront/public-key'')"
    by (simp add: get_parameter_def ex_env_def ex_world_def emit_def)
  have genrsa: "openssl ex_env
      [''openssl'', ''genrsa'', ''-out'', path_join ''/tmp/tmpk'' ''private.pem'', ''2048'']
      (files ex_world) = Inr [''/tmp/tmpk/private.pem'' \<mapsto> ''PRIV'' @ [CHR 0x0D, CHR 0x0A]]"
    by (simp add: ex_env_def ex_openssl_def ex_world_def path_join_def)
  have pubout: "openssl ex_env
      [''openssl'', ''rsa'', ''-in'', path_join ''/tmp/tmpk'' ''private.pem'', ''-pubout'',
       ''-out'', path_join ''/tmp/tmpk'' ''public.pem'']
      [''/tmp/tmpk/private.pem'' \<mapsto> ''PRIV'' @ [CHR 0x0D, CHR 0x0A]] =
      Inr [''/tmp/tmpk/private.pem'' \<mapsto> ''PRIV'' @ [CHR 0x0D, CHR 0x0A],
           ''/tmp/tmpk/public.pem'' \<mapsto> ''PUB'']"
    by (simp add: ex_env_def ex_openssl_def path_join_def)
  show ?thesis
    using update_not_found_creates
      [where event = "ex_event ''Update'' ''edge'' (Some ''keys-2019'')" and ctx = ex_ctx
         and private_bytes = "''PRIV'' @ [CHR 0x0D, CHR 0x0A]" and public_bytes = "''PUB''"
         and private_key_pem = "''PRIV\<newline>''" and public_key_pem = "''PUB''",
       OF ex_request ex_addressed nf _ genrsa pubout]
    by (clarsimp simp add: ex_env_def actions_def ex_world_def ex_ctx_def path_join_def
          b64encode_def b64_char_def b64_alphabet_def)
qed

text \<open>
  C5, as the code has it. For an event with \<^verbatim>\<open>RequestType = Delete\<close> that carries every field
  the function reads, the function makes no call to the store and runs no command: it
  prints two lines and sends one callback, \<^verbatim>\<open>SUCCESS\<close> with
  \<^verbatim>\<open>Data = {Message: "Keys retained in SSM"}\<close>, under the \<^verbatim>\<open>PhysicalResourceId\<close> of the event
  when it has one and under \<^verbatim>\<open>cf-keys-{Environment}-{Service}\<close> otherwise.
\<close>

theorem delete_retains_keys:
  assumes "request event ''Delete'' environment service"
    and "addressed event stack_id request_id logical_id url"
  shows "\<exists>line. handler en event ctx w =
     (Inr (),
      w\<lparr>trace := trace w @
          [Print_Event event,
           Print (''Delete requested. Keys retained in SSM: '' @
                  private_path environment service @ '', '' @ public_path environment service),
           Http_Put url (JObj
             [(''Status'', JStr ''SUCCESS''),
              (''Reason'', JStr (''See CloudWatch Log Stream: '' @ log_stream_name ctx)),
              (''PhysicalResourceId'', JStr
                 (case PhysicalResourceId event of
                    Some p \<Rightarrow> p
                  | None \<Rightarrow> ''cf-keys-'' @ environment @ ''-'' @ service)),
              (''StackId'', JStr stack_id),
              (''RequestId'', JStr request_id),
              (''LogicalResourceId'', JStr logical_id),
              (''Data'', JObj [(''Message'', JStr ''Keys retained in SSM'')])]),
           Print line]\<rparr>)"
  unfolding handler_delete [OF assms]
  by (rule exI [where x = "delivery_line en url (cfn_body ctx ''SUCCESS''
          (case PhysicalResourceId event of Some p \<Rightarrow> p | None \<Rightarrow> cf_keys environment service)
          stack_id request_id logical_id (JObj [(''Message'', JStr ''Keys retained in SSM'')]))"])
     (simp add: deliver_def emit_def cfn_body_def)

theorem delete_retains_keys_witness:
  "fst (handler ex_env (ex_event ''Delete'' ''edge'' None) ex_ctx ex_stored) = Inr () \<and>
   params (snd (handler ex_env (ex_event ''Delete'' ''edge'' None) ex_ctx ex_stored)) =
     params ex_stored \<and>
   actions (trace (snd (handler ex_env (ex_event ''Delete'' ''edge'' None) ex_ctx ex_stored))) =
     [Http_Put ''https://cfn/cb'' (JObj
        [(''Status'', JStr ''SUCCESS''),
         (''Reason'', JStr ''See CloudWatch Log Stream: log-1''),
         (''PhysicalResourceId'', JStr ''cf-keys-prod-edge''),
         (''StackId'', JStr ''stack-1''),
         (''RequestId'', JStr ''req-1''),
         (''LogicalResourceId'', JStr ''Keys''),
         (''Data'', JObj [(''Message'', JStr ''Keys retained in SSM'')])])]"
  using delete_retains_keys [where event = "ex_event ''Delete'' ''edge'' None"
      and en = ex_env and w = ex_stored and ctx = ex_ctx, OF ex_request ex_addressed]
  by (clarsimp simp add: ex_world_def ex_stored_def ex_ctx_def ex_event_def actions_def)

text \<open>
  The message of the Delete callback is not \<^verbatim>\<open>"Keys retained"\<close>: the callback of the Delete
  event below differs from the body that carries that message.
\<close>

theorem delete_message_counterexample:
  "callbacks (trace (snd (handler ex_env (ex_event ''Delete'' ''edge'' (Some ''cf-keys-prod-edge''))
      ex_ctx ex_stored))) \<noteq>
   [JObj [(''Status'', JStr ''SUCCESS''),
          (''Reason'', JStr ''See CloudWatch Log Stream: log-1''),
          (''PhysicalResourceId'', JStr ''cf-keys-prod-edge''),
          (''StackId'', JStr ''stack-1''),
          (''RequestId'', JStr ''req-1''),
          (''LogicalResourceId'', JStr ''Keys''),
          (''Data'', JObj [(''Message'', JStr ''Keys retained'')])]]"
  by (simp add: ex_delete_callbacks cfn_body_def)





text \<open>
  C9. For an event that carries \<^verbatim>\<open>RequestType\<close>, \<^verbatim>\<open>Environment\<close> and \<^verbatim>\<open>Service\<close> and whose
  \<^verbatim>\<open>RequestType\<close> is none of Create, Update and Delete, the function returns normally
  having printed the event and done nothing else: no call to the store, no command, no
  callback.
\<close>

theorem unknown_request_type_does_nothing:
  assumes "request event request_type environment service"
    and "request_type \<noteq> ''Create''" and "request_type \<noteq> ''Update''"
    and "request_type \<noteq> ''Delete''"
  shows "handler en event ctx w = (Inr (), w\<lparr>trace := trace w @ [Print_Event event]\<rparr>)"
  by (simp add: handler_other [OF assms] emit_def)

theorem unknown_request_type_does_nothing_witness:
  "handler ex_env (ex_event ''Rotate'' ''edge'' None) ex_ctx ex_stored =
     (Inr (), ex_stored\<lparr>trace := [Print_Event (ex_event ''Rotate'' ''edge'' None)]\<rparr>)"
  using unknown_request_type_does_nothing [where event = "ex_event ''Rotate'' ''edge'' None"
      and en = ex_env and w = ex_stored and ctx = ex_ctx, OF ex_request]
  by (simp add: ex_stored_def ex_world_def)

end
